theory Spec2Isabelle
  imports Complex_Main "HOL-Library.Sublist"
begin

section \<open>Python values\<close>

text \<open>
  The rows of the warehouse client, the evaluation dictionaries and the request body are
  Python dictionaries whose values are dynamically typed. A value is one of the
  alternatives of \<open>pyval\<close>. A float is either a finite number (\<open>Finite r\<close> is the
  float that denotes the real number \<open>r\<close>, the positive zero for \<open>r = 0\<close>), the
  negative zero, an infinity or a NaN: \<open>abs\<close> and \<open>>\<close> on floats are exact, so
  nothing is lost for the comparisons the code makes. A \<open>string\<close> is read as a sequence
  of code points below 256. A tuple is represented like a list.
\<close>

datatype pyfloat = Finite real | NegZero | PosInf | NegInf | NaN

record CategorySentiment =
  category :: string
  category_sentiment_label :: string
  category_sentiment_score :: pyfloat
  subcategory :: string
  subcategory_sentiment_label :: string
  subcategory_sentiment_score :: pyfloat

datatype pyval =
    PNone
  | PBool bool
  | PInt int
  | PFloat pyfloat
  | PStr string
  | PDatetime int
  | PList "pyval list"
  | PDict "(string \<times> pyval) list"
  | PCatSent CategorySentiment

type_synonym pydict = "(string \<times> pyval) list"

text \<open>Exceptions of the Python runtime and of the libraries, as values.\<close>

datatype exn =
    ValueError string
  | KeyError string
  | TypeError
  | AttributeError
  | OverflowError
  | JSONDecodeError
  | ValidationError
  | WarehouseError string

text \<open>
  The parts of the Python runtime and of the third-party libraries (pydantic, json,
  hashlib) that the repository calls and does not define are parameters of the model.
  \<^item> \<open>py_repr\<close>: \<open>str(v)\<close> for a finite float other than a zero and for a value
    that is not None, a bool, an int, a float or a string;
  \<^item> \<open>float_of_int\<close>, \<open>float_of_str\<close>: \<open>float(v)\<close>, \<open>None\<close> for OverflowError and
    ValueError;
  \<^item> \<open>int_of_str\<close>: \<open>int(s)\<close>, \<open>None\<close> for ValueError;
  \<^item> \<open>json_loads\<close>, \<open>json_dumps\<close>: \<open>None\<close> for JSONDecodeError and TypeError;
  \<^item> \<open>v_str\<close>, \<open>v_int\<close>, \<open>v_datetime\<close>: pydantic's validation of a field of type
    \<open>str\<close>, \<open>int\<close>, \<open>datetime\<close>, \<open>None\<close> for a ValidationError;
  \<^item> \<open>sha256_hex\<close>: \<open>hashlib.sha256(s.encode()).hexdigest()\<close>;
  \<^item> \<open>union_as_dict\<close>: whether pydantic keeps a dict given for a field of type
    \<open>Union[SentimentAnalysis, dict]\<close> as a dict.
\<close>

record runtime =
  py_repr :: "pyval \<Rightarrow> string"
  float_of_int :: "int \<Rightarrow> pyfloat option"
  float_of_str :: "string \<Rightarrow> pyfloat option"
  int_of_str :: "string \<Rightarrow> int option"
  json_loads :: "string \<Rightarrow> pyval option"
  json_dumps :: "pyval \<Rightarrow> string option"
  v_str :: "pyval \<Rightarrow> string option"
  v_int :: "pyval \<Rightarrow> int option"
  v_datetime :: "pyval \<Rightarrow> int option"
  sha256_hex :: "string \<Rightarrow> string"
  union_as_dict :: bool

subsection \<open>Built-in operations\<close>

text \<open>\<open>bool(v)\<close>, the truth value of \<open>v\<close> in \<open>if v\<close>, \<open>a and b\<close>, \<open>a or b\<close>.\<close>

fun truthy :: "pyval \<Rightarrow> bool" where
  "truthy PNone = False"
| "truthy (PBool b) = b"
| "truthy (PInt i) = (i \<noteq> 0)"
| "truthy (PFloat f) = (f \<noteq> Finite 0 \<and> f \<noteq> NegZero)"
| "truthy (PStr s) = (s \<noteq> [])"
| "truthy (PDatetime t) = True"
| "truthy (PList l) = (l \<noteq> [])"
| "truthy (PDict d) = (d \<noteq> [])"
| "truthy (PCatSent c) = True"

text \<open>\<open>d.get(k, dflt)\<close> and \<open>d[k]\<close>.\<close>

definition dict_get :: "pydict \<Rightarrow> string \<Rightarrow> pyval \<Rightarrow> pyval" where
  "dict_get d k dflt = (case map_of d k of None \<Rightarrow> dflt | Some v \<Rightarrow> v)"

definition subscript :: "pydict \<Rightarrow> string \<Rightarrow> exn + pyval" where
  "subscript d k = (case map_of d k of None \<Rightarrow> Inl (KeyError k) | Some v \<Rightarrow> Inr v)"

text \<open>Decimal text of an integer, as \<open>str\<close> prints it.\<close>

definition digit_char :: "nat \<Rightarrow> char" where
  "digit_char d = char_of (48 + d)"

fun digits :: "nat \<Rightarrow> string" where
  "digits n = (if n < 10 then [digit_char n] else digits (n div 10) @ [digit_char (n mod 10)])"

declare digits.simps [simp del]

definition str_int :: "int \<Rightarrow> string" where
  "str_int i = (if i < 0 then CHR ''-'' # digits (nat (- i)) else digits (nat i))"

text \<open>
  \<open>str\<close> of a float: fixed texts for a NaN, the infinities and the two zeros; the
  shortest text that reads back as the float, from the runtime, for the others.
\<close>

definition float_str :: "runtime \<Rightarrow> pyfloat \<Rightarrow> string" where
  "float_str rt f =
     (case f of
        NaN \<Rightarrow> ''nan''
      | PosInf \<Rightarrow> ''inf''
      | NegInf \<Rightarrow> ''-inf''
      | NegZero \<Rightarrow> ''-0.0''
      | Finite r \<Rightarrow> if r = 0 then ''0.0'' else py_repr rt (PFloat (Finite r)))"

definition py_str :: "runtime \<Rightarrow> pyval \<Rightarrow> string" where
  "py_str rt v =
     (case v of
        PStr s \<Rightarrow> s
      | PNone \<Rightarrow> ''None''
      | PBool b \<Rightarrow> (if b then ''True'' else ''False'')
      | PInt i \<Rightarrow> str_int i
      | PFloat f \<Rightarrow> float_str rt f
      | _ \<Rightarrow> py_repr rt v)"

text \<open>\<open>s.replace(old, new)\<close> for a pattern \<open>old\<close> of one character.\<close>

fun replace_char :: "char \<Rightarrow> string \<Rightarrow> string \<Rightarrow> string" where
  "replace_char old new [] = []"
| "replace_char old new (c # cs) =
     (if c = old then new @ replace_char old new cs else c # replace_char old new cs)"

section \<open>The SQL value formatter\<close>

text \<open>
  \<^verbatim>\<open>
  def _format_sql_value(value) -> str:
      if value is None:
          return "NULL"
      elif isinstance(value, bool):
          return "TRUE" if value else "FALSE"
      elif isinstance(value, str):
          escaped = value.replace("'", "''")
          return f"'{escaped}'"
      elif isinstance(value, (int, float)):
          return str(value)
      else:
          return "NULL"
  \<close>
  The leading underscore of the name is dropped.
\<close>

definition quote :: char where
  "quote = CHR 0x27"

fun format_sql_value :: "runtime \<Rightarrow> pyval \<Rightarrow> string" where
  "format_sql_value rt PNone = ''NULL''"
| "format_sql_value rt (PBool b) = (if b then ''TRUE'' else ''FALSE'')"
| "format_sql_value rt (PStr s) = [quote] @ replace_char quote [quote, quote] s @ [quote]"
| "format_sql_value rt (PInt i) = py_str rt (PInt i)"
| "format_sql_value rt (PFloat f) = py_str rt (PFloat f)"
| "format_sql_value rt v = ''NULL''"

text \<open>Reading a decimal text back.\<close>

definition digit_val :: "char \<Rightarrow> nat" where
  "digit_val c = of_char c - 48"

definition nat_of_digits :: "string \<Rightarrow> nat" where
  "nat_of_digits s = foldl (\<lambda>acc c. 10 * acc + digit_val c) 0 s"

definition int_of_decimal :: "string \<Rightarrow> int" where
  "int_of_decimal s =
     (case s of
        [] \<Rightarrow> 0
      | c # cs \<Rightarrow> if c = CHR ''-'' then - int (nat_of_digits cs) else int (nat_of_digits s))"

text \<open>
  A decimal text: an optional minus sign, then digits with at most one decimal point
  among them, and at least one digit.
\<close>

definition is_digit :: "char \<Rightarrow> bool" where
  "is_digit c = (48 \<le> (of_char c :: nat) \<and> (of_char c :: nat) \<le> 57)"

definition decimal_text :: "string \<Rightarrow> bool" where
  "decimal_text s =
     (let body = (case s of [] \<Rightarrow> [] | c # cs \<Rightarrow> if c = CHR ''-'' then cs else s)
      in list_ex is_digit body
       \<and> list_all (\<lambda>c. is_digit c \<or> c = CHR ''.'') body
       \<and> length (filter (\<lambda>c. c = CHR ''.'') body) \<le> 1)"

section \<open>More built-in operations\<close>

text \<open>
  \<open>s.lower()\<close>: on the code points below 256 the upper-case letters are A to Z and the
  Latin-1 letters 192 to 222 without the multiplication sign 215; each is 32 below its
  lower-case letter.
\<close>

definition lower_char :: "char \<Rightarrow> char" where
  "lower_char c =
     (let n = (of_char c :: nat)
      in if (65 \<le> n \<and> n \<le> 90) \<or> (192 \<le> n \<and> n \<le> 222 \<and> n \<noteq> 215)
         then char_of (n + 32) else c)"

definition lower :: "string \<Rightarrow> string" where
  "lower s = map lower_char s"

text \<open>\<open>v.lower()\<close> on a value: only a string has the method.\<close>

definition py_lower :: "pyval \<Rightarrow> exn + string" where
  "py_lower v = (case v of PStr s \<Rightarrow> Inr (lower s) | _ \<Rightarrow> Inl AttributeError)"

text \<open>\<open>sub in s\<close> on strings: \<open>sub\<close> occurs in \<open>s\<close> as a contiguous piece.\<close>

fun py_in :: "string \<Rightarrow> string \<Rightarrow> bool" where
  "py_in sub [] = (sub = [])"
| "py_in sub (c # cs) = (prefix sub (c # cs) \<or> py_in sub cs)"

text \<open>
  \<open>abs\<close> and \<open>>\<close> on floats. Every comparison with a NaN is false; the negative zero
  compares as zero.
\<close>

fun fabs :: "pyfloat \<Rightarrow> pyfloat" where
  "fabs (Finite r) = Finite \<bar>r\<bar>"
| "fabs NegZero = Finite 0"
| "fabs PosInf = PosInf"
| "fabs NegInf = PosInf"
| "fabs NaN = NaN"

fun float_gt :: "pyfloat \<Rightarrow> pyfloat \<Rightarrow> bool" where
  "float_gt (Finite a) (Finite b) = (a > b)"
| "float_gt (Finite a) NegZero = (a > 0)"
| "float_gt NegZero (Finite b) = (0 > b)"
| "float_gt PosInf (Finite b) = True"
| "float_gt PosInf NegZero = True"
| "float_gt PosInf NegInf = True"
| "float_gt (Finite a) NegInf = True"
| "float_gt NegZero NegInf = True"
| "float_gt a b = False"

text \<open>\<open>float(v)\<close>.\<close>

fun py_float :: "runtime \<Rightarrow> pyval \<Rightarrow> exn + pyfloat" where
  "py_float rt (PFloat f) = Inr f"
| "py_float rt (PBool b) = Inr (Finite (if b then 1 else 0))"
| "py_float rt (PInt i) =
     (case float_of_int rt i of None \<Rightarrow> Inl OverflowError | Some f \<Rightarrow> Inr f)"
| "py_float rt (PStr s) =
     (case float_of_str rt s of
        None \<Rightarrow> Inl (ValueError ''could not convert string to float'')
      | Some f \<Rightarrow> Inr f)"
| "py_float rt v = Inl TypeError"

section \<open>The models (models.py)\<close>

datatype ValidationDecision = ACCEPT | OVERRIDE | SKIP

datatype ReviewStatus = RANDOM_SAMPLE | COMPLETED | RECOMMENDED

text \<open>
  The field \<open>category_sentiments\<close> of \<open>SentimentAnalysis\<close> is named
  \<open>sa_category_sentiments\<close> here: \<open>ReviewSummary\<close> has a field of the same name.
\<close>

record SentimentAnalysis =
  irrelevant :: bool
  aspects :: "(string \<times> pyfloat option) list option"
  sa_category_sentiments :: "CategorySentiment list option"

text \<open>
  The field \<open>sentiment_analysis\<close> has the type \<open>Union[SentimentAnalysis, dict]\<close>.
\<close>

datatype sentiment_repr = SAModel SentimentAnalysis | SADict pydict

record ReviewSummary =
  response_id :: string
  question_label :: string
  question_response :: string
  relevant_comments :: string
  profanity_check :: bool
  profane :: bool
  rewritten_comment :: "string option"
  sentiment_analysis :: sentiment_repr
  created_at :: "int option"
  store_id :: "string option"
  status :: ReviewStatus
  overall_sentiment_label :: "string option"
  overall_sentiment_score :: "int option"
  category_sentiments :: "CategorySentiment list option"

text \<open>The detail of an HTTP error, and the error with its status code.\<close>

datatype detail =
    DataConversionError exn
  | ReviewNotFound
  | WriteFailed
  | ValidationFailed exn

datatype http_error = HTTPException nat detail

text \<open>pydantic's validation of a field of type \<open>Optional[T]\<close>: None is accepted.\<close>

definition v_optional :: "(pyval \<Rightarrow> 'a option) \<Rightarrow> pyval \<Rightarrow> 'a option option" where
  "v_optional vld v = (if v = PNone then Some None else map_option Some (vld v))"

section \<open>The row-grouping converter (routes/v1/reviews.py)\<close>

text \<open>
  The constructor call of lines 81 to 88: the two \<open>float(...)\<close> calls are evaluated
  with the arguments, in order; pydantic then validates the four \<open>str\<close> fields.
\<close>

definition category_sentiment_of_row :: "runtime \<Rightarrow> pydict \<Rightarrow> exn + CategorySentiment" where
  "category_sentiment_of_row rt row =
     (case subscript row ''comment_category'' of Inl e \<Rightarrow> Inl e | Inr cat \<Rightarrow>
      case py_float rt (dict_get row ''category_sentiment_score'' (PFloat (Finite 0))) of
        Inl e \<Rightarrow> Inl e | Inr cat_score \<Rightarrow>
      case subscript row ''comment_subcategory'' of Inl e \<Rightarrow> Inl e | Inr sub \<Rightarrow>
      case py_float rt (dict_get row ''subcategory_sentiment_score'' (PFloat (Finite 0))) of
        Inl e \<Rightarrow> Inl e | Inr sub_score \<Rightarrow>
      case (v_str rt cat,
            v_str rt (dict_get row ''category_sentiment_label'' (PStr ''Neutral'')),
            v_str rt sub,
            v_str rt (dict_get row ''subcategory_sentiment_label'' (PStr ''Neutral''))) of
        (Some c, Some cl, Some s, Some sl) \<Rightarrow>
          Inr \<lparr>category = c, category_sentiment_label = cl, category_sentiment_score = cat_score,
               subcategory = s, subcategory_sentiment_label = sl,
               subcategory_sentiment_score = sub_score\<rparr>
      | _ \<Rightarrow> Inl ValidationError)"

text \<open>The guard of line 80.\<close>

definition has_category_and_subcategory :: "pydict \<Rightarrow> bool" where
  "has_category_and_subcategory row =
     (truthy (dict_get row ''comment_category'' PNone) \<and>
      truthy (dict_get row ''comment_subcategory'' PNone))"

text \<open>The loop of lines 73 to 75.\<close>

fun verify_response_ids :: "runtime \<Rightarrow> string \<Rightarrow> pydict list \<Rightarrow> exn + unit" where
  "verify_response_ids rt rid [] = Inr ()"
| "verify_response_ids rt rid (row # rows) =
     (case subscript row ''response_id'' of
        Inl e \<Rightarrow> Inl e
      | Inr v \<Rightarrow>
          if py_str rt v \<noteq> rid
          then Inl (ValueError (''Mixed response IDs in rows: '' @ rid @ '' vs '' @ py_str rt v))
          else verify_response_ids rt rid rows)"

text \<open>The loop of lines 78 to 89.\<close>

fun build_category_sentiments :: "runtime \<Rightarrow> pydict list \<Rightarrow> exn + CategorySentiment list" where
  "build_category_sentiments rt [] = Inr []"
| "build_category_sentiments rt (row # rows) =
     (if has_category_and_subcategory row
      then (case category_sentiment_of_row rt row of
              Inl e \<Rightarrow> Inl e
            | Inr c \<Rightarrow>
                (case build_category_sentiments rt rows of
                   Inl e \<Rightarrow> Inl e
                 | Inr cs \<Rightarrow> Inr (c # cs)))
      else build_category_sentiments rt rows)"

text \<open>Lines 94 and 95, on the lower-cased relevancy.\<close>

definition is_irrelevant :: "string \<Rightarrow> bool" where
  "is_irrelevant response_relevancy =
     (py_in ''irrelevant'' response_relevancy \<or> py_in ''nonsense'' response_relevancy)"

text \<open>Lines 103 to 107.\<close>

definition flagged_for_review :: "CategorySentiment list \<Rightarrow> bool" where
  "flagged_for_review sentiments =
     list_ex (\<lambda>sentiment.
        float_gt (fabs (category_sentiment_score sentiment)) (Finite (1/2)) \<or>
        float_gt (fabs (subcategory_sentiment_score sentiment)) (Finite (1/2))) sentiments"

text \<open>\<open>a or b\<close> on values.\<close>

definition py_or :: "pyval \<Rightarrow> pyval \<Rightarrow> pyval" where
  "py_or a b = (if truthy a then a else b)"

text \<open>
  The constructor call of lines 109 to 124. pydantic validates the fields; the fields
  given a value of the field's own type cannot fail and are written directly.
\<close>

definition source_review_summary ::
  "runtime \<Rightarrow> pydict \<Rightarrow> string \<Rightarrow> string \<Rightarrow> CategorySentiment list \<Rightarrow> exn + ReviewSummary" where
  "source_review_summary rt first_row rid response_relevancy sentiments =
     (case (v_str rt (dict_get first_row ''question_label'' (PStr ''COMMENT'')),
            v_str rt (dict_get first_row ''question_response'' (PStr [])),
            v_str rt (py_or (dict_get first_row ''rewritten_comment'' PNone) (PStr [])),
            v_optional (v_str rt) (dict_get first_row ''store_key'' PNone),
            v_optional (v_str rt) (dict_get first_row ''overall_sentiment_label'' PNone),
            v_optional (v_int rt) (dict_get first_row ''overall_sentiment_score'' PNone),
            v_optional (v_datetime rt) (dict_get first_row ''visit_datetime'' PNone)) of
        (Some ql, Some qr, Some rw, Some store, Some label, Some score, Some visit) \<Rightarrow>
          Inr \<lparr>response_id = rid,
               question_label = ql,
               question_response = qr,
               relevant_comments = qr,
               profanity_check = True,
               profane = truthy (dict_get first_row ''profane'' (PBool False)),
               rewritten_comment = Some rw,
               sentiment_analysis =
                 SAModel \<lparr>irrelevant = is_irrelevant response_relevancy, aspects = None,
                          sa_category_sentiments = Some sentiments\<rparr>,
               created_at = visit,
               store_id = store,
               status = (if flagged_for_review sentiments then RECOMMENDED else RANDOM_SAMPLE),
               overall_sentiment_label = label,
               overall_sentiment_score = score,
               category_sentiments = Some sentiments\<rparr>
      | _ \<Rightarrow> Inl ValidationError)"

text \<open>
  The body of the \<open>try\<close> of \<open>convert_flattened_rows_to_review\<close> (lines 65 to 124).
\<close>

definition flattened_rows_review :: "runtime \<Rightarrow> pydict list \<Rightarrow> exn + ReviewSummary" where
  "flattened_rows_review rt db_rows =
     (case db_rows of
        [] \<Rightarrow> Inl (ValueError ''No rows provided'')
      | first_row # _ \<Rightarrow>
     (case subscript first_row ''response_id'' of Inl e \<Rightarrow> Inl e | Inr rid \<Rightarrow>
      case verify_response_ids rt (py_str rt rid) db_rows of Inl e \<Rightarrow> Inl e | Inr _ \<Rightarrow>
      case build_category_sentiments rt db_rows of Inl e \<Rightarrow> Inl e | Inr sentiments \<Rightarrow>
      case py_lower (dict_get first_row ''response_relevancy'' (PStr [])) of
        Inl e \<Rightarrow> Inl e | Inr response_relevancy \<Rightarrow>
      source_review_summary rt first_row (py_str rt rid) response_relevancy sentiments))"

text \<open>The function with its \<open>except Exception\<close>: every exception becomes an HTTP 500.\<close>

definition convert_flattened_rows_to_review :: "runtime \<Rightarrow> pydict list \<Rightarrow> http_error + ReviewSummary" where
  "convert_flattened_rows_to_review rt db_rows =
     (case flattened_rows_review rt db_rows of
        Inl e \<Rightarrow> Inl (HTTPException 500 (DataConversionError e))
      | Inr review \<Rightarrow> Inr review)"

definition convert_databricks_to_review :: "runtime \<Rightarrow> pydict \<Rightarrow> http_error + ReviewSummary" where
  "convert_databricks_to_review rt db_row = convert_flattened_rows_to_review rt [db_row]"

subsection \<open>Reviews of the evaluation table\<close>

text \<open>
  \<open>for x in v\<close>: a list gives its elements, a string its characters, a dict its keys
  (an association list stands for a dict with these keys in this order), a pydantic model
  its pairs of field name and value.
\<close>

fun py_iter :: "pyval \<Rightarrow> exn + pyval list" where
  "py_iter (PList l) = Inr l"
| "py_iter (PStr s) = Inr (map (\<lambda>c. PStr [c]) s)"
| "py_iter (PDict d) = Inr (map (\<lambda>kv. PStr (fst kv)) d)"
| "py_iter (PCatSent c) =
     Inr [PList [PStr ''category'', PStr (category c)],
          PList [PStr ''category_sentiment_label'', PStr (category_sentiment_label c)],
          PList [PStr ''category_sentiment_score'', PFloat (category_sentiment_score c)],
          PList [PStr ''subcategory'', PStr (subcategory c)],
          PList [PStr ''subcategory_sentiment_label'', PStr (subcategory_sentiment_label c)],
          PList [PStr ''subcategory_sentiment_score'', PFloat (subcategory_sentiment_score c)]]"
| "py_iter v = Inl TypeError"

text \<open>\<open>json.loads(v)\<close>: the argument must be a string.\<close>

definition py_json_loads :: "runtime \<Rightarrow> pyval \<Rightarrow> exn + pyval" where
  "py_json_loads rt v =
     (case v of
        PStr s \<Rightarrow> (case json_loads rt s of None \<Rightarrow> Inl JSONDecodeError | Some d \<Rightarrow> Inr d)
      | _ \<Rightarrow> Inl TypeError)"

text \<open>
  The exceptions that \<open>except (json.JSONDecodeError, KeyError, ValueError)\<close> catches:
  JSONDecodeError and pydantic's ValidationError are subclasses of ValueError.
\<close>

fun caught_by_parse :: "exn \<Rightarrow> bool" where
  "caught_by_parse (ValueError m) = True"
| "caught_by_parse (KeyError k) = True"
| "caught_by_parse JSONDecodeError = True"
| "caught_by_parse ValidationError = True"
| "caught_by_parse e = False"

text \<open>The constructor call of lines 147 to 154: \<open>cs_data.get\<close> needs a dict.\<close>

definition completed_category_sentiment :: "runtime \<Rightarrow> pyval \<Rightarrow> exn + CategorySentiment" where
  "completed_category_sentiment rt cs_data =
     (case cs_data of
        PDict d \<Rightarrow>
          (case py_float rt (dict_get d ''category_sentiment_score'' (PFloat (Finite 0))) of
             Inl e \<Rightarrow> Inl e | Inr cat_score \<Rightarrow>
           case py_float rt (dict_get d ''subcategory_sentiment_score'' (PFloat (Finite 0))) of
             Inl e \<Rightarrow> Inl e | Inr sub_score \<Rightarrow>
           case (v_str rt (dict_get d ''category'' (PStr [])),
                 v_str rt (dict_get d ''category_sentiment_label'' (PStr ''Neutral'')),
                 v_str rt (dict_get d ''subcategory'' (PStr [])),
                 v_str rt (dict_get d ''subcategory_sentiment_label'' (PStr ''Neutral''))) of
             (Some c, Some cl, Some s, Some sl) \<Rightarrow>
               Inr \<lparr>category = c, category_sentiment_label = cl,
                    category_sentiment_score = cat_score,
                    subcategory = s, subcategory_sentiment_label = sl,
                    subcategory_sentiment_score = sub_score\<rparr>
           | _ \<Rightarrow> Inl ValidationError)
      | _ \<Rightarrow> Inl AttributeError)"

fun completed_category_sentiments :: "runtime \<Rightarrow> pyval list \<Rightarrow> exn + CategorySentiment list" where
  "completed_category_sentiments rt [] = Inr []"
| "completed_category_sentiments rt (cs_data # rest) =
     (case completed_category_sentiment rt cs_data of
        Inl e \<Rightarrow> Inl e
      | Inr c \<Rightarrow>
          (case completed_category_sentiments rt rest of
             Inl e \<Rightarrow> Inl e
           | Inr cs \<Rightarrow> Inr (c # cs)))"

text \<open>Lines 141 to 158: the inner \<open>try\<close> resets the list on the exceptions it catches.\<close>

definition parse_category_sentiments :: "runtime \<Rightarrow> pyval \<Rightarrow> exn + CategorySentiment list" where
  "parse_category_sentiments rt category_sentiments_json =
     (if truthy category_sentiments_json
      then (case (case py_json_loads rt category_sentiments_json of
                    Inl e \<Rightarrow> Inl e
                  | Inr category_sentiments_data \<Rightarrow>
                      (case py_iter category_sentiments_data of
                         Inl e \<Rightarrow> Inl e
                       | Inr items \<Rightarrow> completed_category_sentiments rt items)) of
              Inl e \<Rightarrow> if caught_by_parse e then Inr [] else Inl e
            | Inr cs \<Rightarrow> Inr cs)
      else Inr [])"

text \<open>The body of the \<open>try\<close> of \<open>convert_completed_review_to_summary\<close>.\<close>

definition completed_review_summary :: "runtime \<Rightarrow> pydict \<Rightarrow> exn + ReviewSummary" where
  "completed_review_summary rt db_row =
     (case parse_category_sentiments rt (dict_get db_row ''human_eval_category_sentiments'' PNone) of
        Inl e \<Rightarrow> Inl e | Inr sentiments \<Rightarrow>
      case subscript db_row ''response_id'' of Inl e \<Rightarrow> Inl e | Inr rid \<Rightarrow>
      case (v_str rt (dict_get db_row ''question_label'' (PStr ''COMMENT'')),
            v_str rt (dict_get db_row ''question_response'' (PStr [])),
            v_optional (v_str rt) (dict_get db_row ''rewritten_comment'' (PStr [])),
            v_optional (v_str rt) (dict_get db_row ''human_eval_overall_sentiment_label'' PNone),
            v_optional (v_int rt) (dict_get db_row ''human_eval_overall_sentiment_score'' PNone)) of
        (Some ql, Some qr, Some rw, Some label, Some score) \<Rightarrow>
          Inr \<lparr>response_id = py_str rt rid,
               question_label = ql,
               question_response = qr,
               relevant_comments = qr,
               profanity_check = True,
               profane = truthy (dict_get db_row ''profane'' (PBool False)),
               rewritten_comment = rw,
               sentiment_analysis =
                 SAModel \<lparr>irrelevant = truthy (dict_get db_row ''irrelevant'' (PBool False)),
                          aspects = None, sa_category_sentiments = Some sentiments\<rparr>,
               created_at = None,
               store_id = None,
               status = COMPLETED,
               overall_sentiment_label = label,
               overall_sentiment_score = score,
               category_sentiments = Some sentiments\<rparr>
      | _ \<Rightarrow> Inl ValidationError)"

definition convert_completed_review_to_summary :: "runtime \<Rightarrow> pydict \<Rightarrow> http_error + ReviewSummary" where
  "convert_completed_review_to_summary rt db_row =
     (case completed_review_summary rt db_row of
        Inl e \<Rightarrow> Inl (HTTPException 500 (DataConversionError e))
      | Inr review \<Rightarrow> Inr review)"

section \<open>The evaluation upsert builder (databricks client)\<close>

text \<open>\<open>int(v)\<close>: a float is truncated towards zero.\<close>

fun py_int :: "runtime \<Rightarrow> pyval \<Rightarrow> exn + int" where
  "py_int rt (PInt i) = Inr i"
| "py_int rt (PBool b) = Inr (if b then 1 else 0)"
| "py_int rt (PFloat (Finite r)) = Inr (if 0 \<le> r then \<lfloor>r\<rfloor> else \<lceil>r\<rceil>)"
| "py_int rt (PFloat NegZero) = Inr 0"
| "py_int rt (PFloat NaN) = Inl (ValueError ''cannot convert float NaN to integer'')"
| "py_int rt (PFloat PosInf) = Inl OverflowError"
| "py_int rt (PFloat NegInf) = Inl OverflowError"
| "py_int rt (PStr s) =
     (case int_of_str rt s of
        None \<Rightarrow> Inl (ValueError ''invalid literal for int()'')
      | Some i \<Rightarrow> Inr i)"
| "py_int rt v = Inl TypeError"

text \<open>\<open>cs.dict()\<close> of a CategorySentiment.\<close>

definition cs_dict :: "CategorySentiment \<Rightarrow> pydict" where
  "cs_dict c =
     [(''category'', PStr (category c)),
      (''category_sentiment_label'', PStr (category_sentiment_label c)),
      (''category_sentiment_score'', PFloat (category_sentiment_score c)),
      (''subcategory'', PStr (subcategory c)),
      (''subcategory_sentiment_label'', PStr (subcategory_sentiment_label c)),
      (''subcategory_sentiment_score'', PFloat (subcategory_sentiment_score c))]"

text \<open>
  The conversion of an element of a list of category sentiments to a dict: a pydantic
  model by its \<open>dict()\<close>, a dict as it is, anything else by \<open>getattr\<close> with defaults
  (a value that is neither has none of the six attributes).
\<close>

definition default_cs_dict :: pydict where
  "default_cs_dict =
     [(''category'', PStr []),
      (''category_sentiment_label'', PStr []),
      (''category_sentiment_score'', PFloat (Finite 0)),
      (''subcategory'', PStr []),
      (''subcategory_sentiment_label'', PStr []),
      (''subcategory_sentiment_score'', PFloat (Finite 0))]"

definition serializable_sentiment :: "pyval \<Rightarrow> pyval" where
  "serializable_sentiment cs =
     (case cs of
        PCatSent c \<Rightarrow> PDict (cs_dict c)
      | PDict d \<Rightarrow> PDict d
      | _ \<Rightarrow> PDict default_cs_dict)"

text \<open>Line 373.\<close>

definition evaluation_hash_key_of :: "runtime \<Rightarrow> string \<Rightarrow> string \<Rightarrow> string" where
  "evaluation_hash_key_of rt survey_response_id evaluation_model =
     sha256_hex rt (survey_response_id @ ''_'' @ evaluation_model)"

text \<open>Lines 376 to 380.\<close>

definition response_relevancy_of :: "pydict \<Rightarrow> string" where
  "response_relevancy_of human_eval_data =
     (if truthy (dict_get human_eval_data ''irrelevant'' (PBool False))
      then ''nonsense or irrelevant''
      else if truthy (dict_get human_eval_data ''profane'' (PBool False))
      then ''profane but useful''
      else ''useful'')"

text \<open>
  Lines 383 to 399: the \<open>category:subcategory\<close> pairs. An element with the attribute
  \<open>category\<close> is a pydantic model; any other element must have \<open>get\<close>, so be a dict.
\<close>

definition pair_text :: "runtime \<Rightarrow> pyval \<Rightarrow> pyval \<Rightarrow> string option" where
  "pair_text rt cat sub =
     (if truthy cat \<and> truthy sub then Some (py_str rt cat @ '':'' @ py_str rt sub) else None)"

definition category_pair :: "runtime \<Rightarrow> pyval \<Rightarrow> exn + string option" where
  "category_pair rt cs =
     (case cs of
        PCatSent c \<Rightarrow> Inr (pair_text rt (PStr (category c)) (PStr (subcategory c)))
      | PDict d \<Rightarrow>
          Inr (pair_text rt (dict_get d ''category'' (PStr [])) (dict_get d ''subcategory'' (PStr [])))
      | _ \<Rightarrow> Inl AttributeError)"

fun category_pairs :: "runtime \<Rightarrow> pyval list \<Rightarrow> exn + string list" where
  "category_pairs rt [] = Inr []"
| "category_pairs rt (cs # rest) =
     (case category_pair rt cs of
        Inl e \<Rightarrow> Inl e
      | Inr p \<Rightarrow>
          (case category_pairs rt rest of
             Inl e \<Rightarrow> Inl e
           | Inr ps \<Rightarrow> Inr (case p of None \<Rightarrow> ps | Some t \<Rightarrow> t # ps)))"

text \<open>\<open>sep.join(xs)\<close>.\<close>

fun join :: "string \<Rightarrow> string list \<Rightarrow> string" where
  "join sep [] = []"
| "join sep [x] = x"
| "join sep (x # y # ys) = x @ sep @ join sep (y # ys)"

definition category_subcategory_list_of :: "runtime \<Rightarrow> pyval \<Rightarrow> exn + string" where
  "category_subcategory_list_of rt sentiments =
     (if truthy sentiments
      then (case py_iter sentiments of
              Inl e \<Rightarrow> Inl e
            | Inr items \<Rightarrow>
                (case category_pairs rt items of
                   Inl e \<Rightarrow> Inl e
                 | Inr ps \<Rightarrow> Inr (join '', '' ps)))
      else Inr [])"

text \<open>Lines 402 to 421.\<close>

definition serialize_category_sentiments :: "runtime \<Rightarrow> pyval \<Rightarrow> exn + string" where
  "serialize_category_sentiments rt sentiments =
     (if \<not> truthy sentiments then Inr ''[]''
      else (case py_iter sentiments of
              Inl e \<Rightarrow> Inl e
            | Inr items \<Rightarrow>
                (case json_dumps rt (PList (map serializable_sentiment items)) of
                   None \<Rightarrow> Inl TypeError
                 | Some text \<Rightarrow> Inr text)))"

text \<open>
  \<open>int(d.get('overall_sentiment_score', 0)) if d.get('overall_sentiment_score') is not
  None else None\<close>, formatted.
\<close>

definition score_literal :: "runtime \<Rightarrow> pydict \<Rightarrow> exn + string" where
  "score_literal rt d =
     (if dict_get d ''overall_sentiment_score'' PNone \<noteq> PNone
      then (case py_int rt (dict_get d ''overall_sentiment_score'' (PInt 0)) of
              Inl e \<Rightarrow> Inl e
            | Inr i \<Rightarrow> Inr (format_sql_value rt (PInt i)))
      else Inr (format_sql_value rt PNone))"

text \<open>\<open>if machine_eval_data\<close>: neither None nor empty.\<close>

definition machine_data :: "pydict option \<Rightarrow> pydict option" where
  "machine_data machine_eval_data =
     (case machine_eval_data of None \<Rightarrow> None | Some d \<Rightarrow> if d = [] then None else Some d)"

definition raw_quoted :: "string \<Rightarrow> string" where
  "raw_quoted s = [quote] @ s @ [quote]"

text \<open>
  The columns of the \<open>SELECT\<close> that is the source of the \<open>MERGE\<close> (lines 431 to 460),
  each with its SQL text, in order. The rest of the statement is fixed text: it merges on
  \<open>target.survey_response_id = source.survey_response_id\<close>, updates the matched row and
  inserts otherwise.
\<close>

definition upsert_source_columns ::
  "runtime \<Rightarrow> string \<Rightarrow> pydict \<Rightarrow> pydict option \<Rightarrow> string \<Rightarrow> exn + (string \<times> string) list" where
  "upsert_source_columns rt survey_response_id human_eval_data machine_eval_data evaluation_model =
     (case category_subcategory_list_of rt (dict_get human_eval_data ''category_sentiments'' (PList [])) of
        Inl e \<Rightarrow> Inl e | Inr category_subcategory_list \<Rightarrow>
      case serialize_category_sentiments rt (dict_get human_eval_data ''category_sentiments'' (PList [])) of
        Inl e \<Rightarrow> Inl e | Inr human_json \<Rightarrow>
      case (case machine_data machine_eval_data of
              None \<Rightarrow> Inr ''[]''
            | Some m \<Rightarrow> serialize_category_sentiments rt (dict_get m ''category_sentiments'' (PList []))) of
        Inl e \<Rightarrow> Inl e | Inr machine_json \<Rightarrow>
      case score_literal rt human_eval_data of Inl e \<Rightarrow> Inl e | Inr human_score \<Rightarrow>
      case (case machine_data machine_eval_data of
              None \<Rightarrow> Inr (format_sql_value rt PNone)
            | Some m \<Rightarrow> score_literal rt m) of
        Inl e \<Rightarrow> Inl e | Inr machine_score \<Rightarrow>
      Inr [(''evaluation_hash_key'',
              raw_quoted (evaluation_hash_key_of rt survey_response_id evaluation_model)),
           (''survey_response_id'', raw_quoted survey_response_id),
           (''question_label'',
              format_sql_value rt (dict_get human_eval_data ''question_label'' (PStr ''COMMENT''))),
           (''question_response'',
              format_sql_value rt (dict_get human_eval_data ''question_response'' PNone)),
           (''response_relevancy'',
              format_sql_value rt (PStr (response_relevancy_of human_eval_data))),
           (''overall_sentiment_label'',
              format_sql_value rt (dict_get human_eval_data ''overall_sentiment_label'' PNone)),
           (''overall_sentiment_score'', human_score),
           (''category_subcategory_list'', format_sql_value rt (PStr category_subcategory_list)),
           (''human_eval_profane'',
              format_sql_value rt (dict_get human_eval_data ''profane'' (PBool False))),
           (''human_eval_rewritten_comment'',
              format_sql_value rt (dict_get human_eval_data ''rewritten_comment'' PNone)),
           (''human_eval_irrelevant'',
              format_sql_value rt (dict_get human_eval_data ''irrelevant'' (PBool False))),
           (''human_eval_overall_sentiment_label'',
              format_sql_value rt (dict_get human_eval_data ''overall_sentiment_label'' PNone)),
           (''human_eval_overall_sentiment_score'', human_score),
           (''human_eval_category_sentiments'', format_sql_value rt (PStr human_json)),
           (''machine_eval_profane'',
              format_sql_value rt
                (case machine_data machine_eval_data of
                   None \<Rightarrow> PBool False | Some m \<Rightarrow> dict_get m ''profane'' (PBool False))),
           (''machine_eval_rewritten_comment'',
              format_sql_value rt
                (case machine_data machine_eval_data of
                   None \<Rightarrow> PNone | Some m \<Rightarrow> dict_get m ''rewritten_comment'' PNone)),
           (''machine_eval_irrelevant'',
              format_sql_value rt
                (case machine_data machine_eval_data of
                   None \<Rightarrow> PBool False | Some m \<Rightarrow> dict_get m ''irrelevant'' (PBool False))),
           (''machine_eval_overall_sentiment_label'',
              format_sql_value rt
                (case machine_data machine_eval_data of
                   None \<Rightarrow> PNone | Some m \<Rightarrow> dict_get m ''overall_sentiment_label'' PNone)),
           (''machine_eval_overall_sentiment_score'', machine_score),
           (''machine_eval_category_sentiments'', format_sql_value rt (PStr machine_json)),
           (''human_eval_pricing'', ''NULL''),
           (''human_eval_other'', ''NULL''),
           (''human_eval_food_experience'', ''NULL''),
           (''human_eval_wait_time'', ''NULL''),
           (''human_eval_service'', ''NULL''),
           (''human_eval_cleanliness'', ''NULL''),
           (''human_eval_ambiance'', ''NULL''),
           (''store_key'', format_sql_value rt (dict_get human_eval_data ''store_id'' PNone)),
           (''visit_datetime'',
              format_sql_value rt (dict_get human_eval_data ''visit_datetime'' PNone)),
           (''evaluation_model'', raw_quoted evaluation_model)])"

section \<open>The review service (routes/v1/reviews.py)\<close>

record ReviewDetail = ReviewSummary +
  validation_status :: "string option"
  user_corrections :: "pydict option"
  accuracy_score :: "pyfloat option"

record ValidationRequest =
  updated_labels :: "pydict option"
  decision :: ValidationDecision
  corrections_made :: "int option"

text \<open>
  The statements sent to the warehouse. Making sure that a table exists is one statement
  here (a \<open>DESCRIBE\<close>, and a \<open>CREATE TABLE\<close> when it fails).
\<close>

datatype statement =
    SelectEvaluation string
  | SelectSource string
  | EnsureEvaluationTable
  | EnsureRecommendationsTable
  | Merge "(string \<times> string) list"

fun is_write :: "statement \<Rightarrow> bool" where
  "is_write (SelectEvaluation r) = False"
| "is_write (SelectSource r) = False"
| "is_write EnsureEvaluationTable = True"
| "is_write EnsureRecommendationsTable = True"
| "is_write (Merge cols) = True"

text \<open>
  What the service sees of its surroundings: whether the client can be built, what the
  two queries for a review id return or raise, whether making sure of the two tables
  raises, whether a \<open>MERGE\<close> succeeds; the list \<open>MOCK_REVIEWS\<close>; and the statements
  issued so far.
\<close>

record world =
  connect_error :: "exn option"
  evaluation_rows :: "string \<Rightarrow> exn + pydict list"
  source_rows :: "string \<Rightarrow> exn + pydict list"
  ensure_evaluation_table :: "exn option"
  ensure_recommendations_table :: "exn option"
  merge_ok :: "(string \<times> string) list \<Rightarrow> bool"
  mock_reviews :: "ReviewDetail list"
  issued :: "statement list"

definition issue :: "statement \<Rightarrow> world \<Rightarrow> world" where
  "issue st w = w\<lparr>issued := issued w @ [st]\<rparr>"

text \<open>\<open>write_human_evaluation_optimized\<close> and its wrapper \<open>write_human_evaluation\<close>.\<close>

definition write_human_evaluation_optimized ::
  "runtime \<Rightarrow> world \<Rightarrow> string \<Rightarrow> pydict \<Rightarrow> pydict option \<Rightarrow> string \<Rightarrow> (exn + bool) \<times> world" where
  "write_human_evaluation_optimized rt w survey_response_id human_eval_data machine_eval_data
       evaluation_model =
     (case connect_error w of
        Some e \<Rightarrow> (Inl e, w)
      | None \<Rightarrow>
     (case ensure_evaluation_table w of
        Some e \<Rightarrow> (Inl e, issue EnsureEvaluationTable w)
      | None \<Rightarrow>
     (case ensure_recommendations_table w of
        Some e \<Rightarrow> (Inl e, issue EnsureRecommendationsTable (issue EnsureEvaluationTable w))
      | None \<Rightarrow>
     (case upsert_source_columns rt survey_response_id human_eval_data machine_eval_data
              evaluation_model of
        Inl e \<Rightarrow> (Inl e, issue EnsureRecommendationsTable (issue EnsureEvaluationTable w))
      | Inr cols \<Rightarrow>
          (Inr (merge_ok w cols),
           issue (Merge cols)
             (issue EnsureRecommendationsTable (issue EnsureEvaluationTable w)))))))"

definition write_human_evaluation ::
  "runtime \<Rightarrow> world \<Rightarrow> string \<Rightarrow> pydict \<Rightarrow> pydict option \<Rightarrow> (exn + bool) \<times> world" where
  "write_human_evaluation rt w rid human_eval_data machine_eval_data =
     write_human_evaluation_optimized rt w rid human_eval_data machine_eval_data
       ''human_validation_v1_legacy''"

text \<open>\<open>get_mock_review_by_id\<close> (mock data).\<close>

definition get_mock_review_by_id :: "ReviewDetail list \<Rightarrow> string \<Rightarrow> ReviewDetail option" where
  "get_mock_review_by_id mocks rid = find (\<lambda>review. response_id review = rid) mocks"

text \<open>\<open>SentimentAnalysis.dict()\<close>.\<close>

definition sa_dict :: "SentimentAnalysis \<Rightarrow> pydict" where
  "sa_dict sa =
     [(''irrelevant'', PBool (irrelevant sa)),
      (''aspects'',
         (case aspects sa of
            None \<Rightarrow> PNone
          | Some a \<Rightarrow>
              PDict (map (\<lambda>kv. (fst kv, case snd kv of None \<Rightarrow> PNone | Some f \<Rightarrow> PFloat f)) a))),
      (''category_sentiments'',
         (case sa_category_sentiments sa of
            None \<Rightarrow> PNone
          | Some l \<Rightarrow> PList (map (\<lambda>c. PDict (cs_dict c)) l)))]"

text \<open>
  \<open>ReviewDetail(**review_summary.dict(), validation_status=..., user_corrections=None,
  accuracy_score=None)\<close>: the fields are validated again from their own values, which
  changes none but \<open>sentiment_analysis\<close>: it is given as a dict and, by the union type,
  kept as a dict or parsed back into the model.
\<close>

definition review_detail_of :: "runtime \<Rightarrow> ReviewSummary \<Rightarrow> string \<Rightarrow> ReviewDetail" where
  "review_detail_of rt s vs =
     \<lparr>response_id = response_id s,
      question_label = question_label s,
      question_response = question_response s,
      relevant_comments = relevant_comments s,
      profanity_check = profanity_check s,
      profane = profane s,
      rewritten_comment = rewritten_comment s,
      sentiment_analysis =
        (case sentiment_analysis s of
           SAModel sa \<Rightarrow> if union_as_dict rt then SADict (sa_dict sa) else SAModel sa
         | SADict d \<Rightarrow> SADict d),
      created_at = created_at s,
      store_id = store_id s,
      status = status s,
      overall_sentiment_label = overall_sentiment_label s,
      overall_sentiment_score = overall_sentiment_score s,
      category_sentiments = category_sentiments s,
      validation_status = Some vs,
      user_corrections = None,
      accuracy_score = None\<rparr>"

text \<open>
  The inner \<open>try\<close> of \<open>get_review_detail\<close> (lines 391 to 412): the evaluation of the
  review, if the query gives a row that converts. Every exception, the HTTP error of the
  conversion too, is caught and logged, and the source data is used.
\<close>

definition evaluated_review :: "runtime \<Rightarrow> exn + pydict list \<Rightarrow> ReviewDetail option" where
  "evaluated_review rt eval_results =
     (case eval_results of
        Inl e \<Rightarrow> None
      | Inr [] \<Rightarrow> None
      | Inr (eval_row # _) \<Rightarrow>
          (case convert_completed_review_to_summary rt eval_row of
             Inl e \<Rightarrow> None
           | Inr review_summary \<Rightarrow> Some (review_detail_of rt review_summary ''completed'')))"

text \<open>The fallback to the mock data (lines 348 to 352 and 463 to 466).\<close>

definition mock_review :: "world \<Rightarrow> string \<Rightarrow> http_error + ReviewDetail" where
  "mock_review w rid =
     (case get_mock_review_by_id (mock_reviews w) rid of
        None \<Rightarrow> Inl (HTTPException 404 ReviewNotFound)
      | Some review \<Rightarrow> Inr review)"

definition get_review_detail ::
  "runtime \<Rightarrow> world \<Rightarrow> string \<Rightarrow> bool \<Rightarrow> (http_error + ReviewDetail) \<times> world" where
  "get_review_detail rt w rid use_databricks =
     (if \<not> use_databricks then (mock_review w rid, w)
      else
     (case connect_error w of
        Some e \<Rightarrow> (mock_review w rid, w)
      | None \<Rightarrow>
     (case evaluated_review rt (evaluation_rows w rid) of
        Some review_detail \<Rightarrow> (Inr review_detail, issue (SelectEvaluation rid) w)
      | None \<Rightarrow>
     (case source_rows w rid of
        Inl e \<Rightarrow>
          (mock_review w rid, issue (SelectSource rid) (issue (SelectEvaluation rid) w))
      | Inr results \<Rightarrow>
          (if results = [] then Inl (HTTPException 404 ReviewNotFound)
           else (case convert_flattened_rows_to_review rt results of
                   Inl e \<Rightarrow> Inl e
                 | Inr review_summary \<Rightarrow> Inr (review_detail_of rt review_summary ''pending'')),
           issue (SelectSource rid) (issue (SelectEvaluation rid) w))))))"

subsection \<open>Validation of a review\<close>

text \<open>Optional fields of a model as values.\<close>

definition opt_str :: "string option \<Rightarrow> pyval" where
  "opt_str x = (case x of None \<Rightarrow> PNone | Some s \<Rightarrow> PStr s)"

definition opt_int :: "int option \<Rightarrow> pyval" where
  "opt_int x = (case x of None \<Rightarrow> PNone | Some i \<Rightarrow> PInt i)"

definition opt_datetime :: "int option \<Rightarrow> pyval" where
  "opt_datetime x = (case x of None \<Rightarrow> PNone | Some t \<Rightarrow> PDatetime t)"

text \<open>\<open>original_review.category_sentiments or []\<close>.\<close>

definition sentiments_or_empty :: "CategorySentiment list option \<Rightarrow> pyval" where
  "sentiments_or_empty cs = PList (case cs of None \<Rightarrow> [] | Some l \<Rightarrow> map PCatSent l)"

text \<open>\<open>d[k] = v\<close> on a dict: the key keeps its place.\<close>

fun dict_set :: "pydict \<Rightarrow> string \<Rightarrow> pyval \<Rightarrow> pydict" where
  "dict_set [] k v = [(k, v)]"
| "dict_set (kv # d) k v = (if fst kv = k then (k, v) # d else kv # dict_set d k v)"

text \<open>\<open>v.get(k, dflt)\<close> on a value: only a dict has the method.\<close>

definition py_get :: "pyval \<Rightarrow> string \<Rightarrow> pyval \<Rightarrow> exn + pyval" where
  "py_get v k dflt = (case v of PDict d \<Rightarrow> Inr (dict_get d k dflt) | _ \<Rightarrow> Inl AttributeError)"

text \<open>Lines 639 to 651 and 654 to 661.\<close>

definition initial_human_eval_data :: "ReviewDetail \<Rightarrow> pydict" where
  "initial_human_eval_data original_review =
     [(''question_label'', PStr (question_label original_review)),
      (''question_response'', PStr (question_response original_review)),
      (''profane'', PNone),
      (''rewritten_comment'', PNone),
      (''irrelevant'', PNone),
      (''overall_sentiment_label'', PNone),
      (''overall_sentiment_score'', PNone),
      (''category_sentiments'', PList []),
      (''aspects'', PDict []),
      (''store_id'', opt_str (store_id original_review)),
      (''visit_datetime'', opt_datetime (created_at original_review))]"

definition initial_machine_eval_data :: "ReviewDetail \<Rightarrow> pydict" where
  "initial_machine_eval_data original_review =
     [(''profane'', PBool (profane original_review)),
      (''rewritten_comment'', opt_str (rewritten_comment original_review)),
      (''irrelevant'', PBool False),
      (''overall_sentiment_label'', opt_str (overall_sentiment_label original_review)),
      (''overall_sentiment_score'', opt_int (overall_sentiment_score original_review)),
      (''category_sentiments'', sentiments_or_empty (category_sentiments original_review))]"

text \<open>Lines 666 to 670 (and 714 to 718).\<close>

definition sentiment_irrelevant :: "sentiment_repr \<Rightarrow> pyval" where
  "sentiment_irrelevant sentiment_data =
     (case sentiment_data of
        SADict d \<Rightarrow> dict_get d ''irrelevant'' (PBool False)
      | SAModel m \<Rightarrow> PBool (irrelevant m))"

text \<open>The branch \<open>accept\<close> (lines 666 to 676).\<close>

definition accept_human_eval_data :: "ReviewDetail \<Rightarrow> pydict \<Rightarrow> pydict" where
  "accept_human_eval_data original_review human_eval_data =
     dict_set (dict_set (dict_set (dict_set (dict_set (dict_set human_eval_data
       ''irrelevant'' (sentiment_irrelevant (sentiment_analysis original_review)))
       ''profane'' (PBool (profane original_review)))
       ''rewritten_comment'' (opt_str (rewritten_comment original_review)))
       ''overall_sentiment_label'' (opt_str (overall_sentiment_label original_review)))
       ''overall_sentiment_score'' (opt_int (overall_sentiment_score original_review)))
       ''category_sentiments'' (sentiments_or_empty (category_sentiments original_review))"

text \<open>The branch \<open>override\<close> with corrections (lines 681 to 710).\<close>

definition override_human_eval_data ::
  "ReviewDetail \<Rightarrow> pydict \<Rightarrow> pydict \<Rightarrow> exn + pydict" where
  "override_human_eval_data original_review labels human_eval_data =
     (case py_get (dict_get labels ''sentiment_analysis'' (PDict [])) ''irrelevant'' (PBool False) of
        Inl e \<Rightarrow> Inl e
      | Inr irr \<Rightarrow>
     (case (if truthy (dict_get labels ''category_sentiments''
                        (sentiments_or_empty (category_sentiments original_review)))
            then (case py_iter (dict_get labels ''category_sentiments''
                                  (sentiments_or_empty (category_sentiments original_review))) of
                    Inl e \<Rightarrow> Inl e
                  | Inr items \<Rightarrow> Inr (PList (map serializable_sentiment items)))
            else Inr (PList [])) of
        Inl e \<Rightarrow> Inl e
      | Inr sentiments \<Rightarrow>
          Inr (dict_set (dict_set (dict_set (dict_set (dict_set (dict_set human_eval_data
                 ''irrelevant'' irr)
                 ''profane'' (dict_get labels ''profane'' (PBool (profane original_review))))
                 ''rewritten_comment''
                   (dict_get labels ''rewritten_comment'' (opt_str (rewritten_comment original_review))))
                 ''overall_sentiment_label''
                   (dict_get labels ''overall_sentiment_label''
                      (opt_str (overall_sentiment_label original_review))))
                 ''overall_sentiment_score''
                   (dict_get labels ''overall_sentiment_score''
                      (opt_int (overall_sentiment_score original_review))))
                 ''category_sentiments'' sentiments)))"

text \<open>
  Lines 664 to 733: the human evaluation data by decision; \<open>None\<close> for \<open>skip\<close>, which
  returns before anything is written. \<open>if validation.updated_labels\<close> holds for a dict
  that is neither None nor empty.
\<close>

definition human_eval_data_for ::
  "ReviewDetail \<Rightarrow> ValidationRequest \<Rightarrow> exn + pydict option" where
  "human_eval_data_for original_review validation =
     (case decision validation of
        ACCEPT \<Rightarrow>
          Inr (Some (accept_human_eval_data original_review
                       (initial_human_eval_data original_review)))
      | OVERRIDE \<Rightarrow>
          (case updated_labels validation of
             None \<Rightarrow>
               Inr (Some (accept_human_eval_data original_review
                            (initial_human_eval_data original_review)))
           | Some labels \<Rightarrow>
               if labels \<noteq> []
               then (case override_human_eval_data original_review labels
                            (initial_human_eval_data original_review) of
                       Inl e \<Rightarrow> Inl e
                     | Inr h \<Rightarrow> Inr (Some h))
               else Inr (Some (accept_human_eval_data original_review
                                 (initial_human_eval_data original_review))))
      | SKIP \<Rightarrow> Inr None)"

text \<open>
  The response of \<open>validate_review\<close>. The keys \<open>review_id\<close>, \<open>decision\<close> and
  \<open>corrections_made\<close> have the prefix \<open>resp\<close> here; the key \<open>corrections_made\<close> is present
  in the last response only. The message is one of three texts.
\<close>

datatype message = HasBeenValidated | SkippedNoEvaluationWritten | SavedToEvaluationTable

record validation_response =
  success :: bool
  resp_review_id :: string
  resp_decision :: ValidationDecision
  resp_corrections_made :: "int option"
  resp_message :: message

text \<open>\<open>review.validation_status = "validated"\<close> on the mock review found.\<close>

fun mark_validated :: "string \<Rightarrow> ReviewDetail list \<Rightarrow> ReviewDetail list" where
  "mark_validated rid [] = []"
| "mark_validated rid (review # rest) =
     (if response_id review = rid
      then review\<lparr>validation_status := Some ''validated''\<rparr> # rest
      else review # mark_validated rid rest)"

definition validate_review ::
  "runtime \<Rightarrow> world \<Rightarrow> string \<Rightarrow> ValidationRequest \<Rightarrow> bool \<Rightarrow>
     (http_error + validation_response) \<times> world" where
  "validate_review rt w rid validation use_databricks =
     (if \<not> use_databricks
      then (case get_mock_review_by_id (mock_reviews w) rid of
              None \<Rightarrow> (Inl (HTTPException 404 ReviewNotFound), w)
            | Some review \<Rightarrow>
                (Inr \<lparr>success = True, resp_review_id = rid,
                      resp_decision = decision validation, resp_corrections_made = None,
                      resp_message = HasBeenValidated\<rparr>,
                 w\<lparr>mock_reviews := mark_validated rid (mock_reviews w)\<rparr>))
      else
     (case get_review_detail rt w rid True of
        (Inl e, w1) \<Rightarrow> (Inl e, w1)
      | (Inr original_review, w1) \<Rightarrow>
     (case human_eval_data_for original_review validation of
        Inl e \<Rightarrow> (Inl (HTTPException 500 (ValidationFailed e)), w1)
      | Inr None \<Rightarrow>
          (Inr \<lparr>success = True, resp_review_id = rid,
                resp_decision = decision validation, resp_corrections_made = None,
                resp_message = SkippedNoEvaluationWritten\<rparr>, w1)
      | Inr (Some human_eval_data) \<Rightarrow>
     (case write_human_evaluation rt w1 rid human_eval_data
              (Some (initial_machine_eval_data original_review)) of
        (Inl e, w2) \<Rightarrow> (Inl (HTTPException 500 (ValidationFailed e)), w2)
      | (Inr written, w2) \<Rightarrow>
          if \<not> written then (Inl (HTTPException 500 WriteFailed), w2)
          else (Inr \<lparr>success = True, resp_review_id = rid,
                     resp_decision = decision validation,
                     resp_corrections_made =
                       Some (case corrections_made validation of
                               None \<Rightarrow> 0 | Some n \<Rightarrow> if n = 0 then 0 else n),
                     resp_message = SavedToEvaluationTable\<rparr>, w2)))))"

section \<open>Shapes of rows\<close>

text \<open>
  Predicates on the input of the converter, for the statements below: the rows of a
  group have a response id that prints as the first row's; a row with category and
  subcategory has scores that \<open>float\<close> accepts and names and labels that validate as
  strings; the first row has a string as relevancy and shared fields that validate.
\<close>

definition has_response_id :: "runtime \<Rightarrow> string \<Rightarrow> pydict \<Rightarrow> bool" where
  "has_response_id rt rid row =
     (case map_of row ''response_id'' of None \<Rightarrow> False | Some v \<Rightarrow> py_str rt v = rid)"

definition shares_response_id :: "runtime \<Rightarrow> pydict list \<Rightarrow> bool" where
  "shares_response_id rt db_rows =
     (case db_rows of
        [] \<Rightarrow> True
      | first_row # _ \<Rightarrow>
          (case map_of first_row ''response_id'' of
             None \<Rightarrow> False
           | Some v \<Rightarrow> list_all (has_response_id rt (py_str rt v)) db_rows))"

definition floatable :: "runtime \<Rightarrow> pyval \<Rightarrow> bool" where
  "floatable rt v = (case py_float rt v of Inl e \<Rightarrow> False | Inr f \<Rightarrow> True)"

definition valid_str :: "runtime \<Rightarrow> pyval \<Rightarrow> bool" where
  "valid_str rt v = (v_str rt v \<noteq> None)"

definition sentiment_fields_ok :: "runtime \<Rightarrow> pydict \<Rightarrow> bool" where
  "sentiment_fields_ok rt row =
     (floatable rt (dict_get row ''category_sentiment_score'' (PFloat (Finite 0))) \<and>
      floatable rt (dict_get row ''subcategory_sentiment_score'' (PFloat (Finite 0))) \<and>
      valid_str rt (dict_get row ''comment_category'' PNone) \<and>
      valid_str rt (dict_get row ''category_sentiment_label'' (PStr ''Neutral'')) \<and>
      valid_str rt (dict_get row ''comment_subcategory'' PNone) \<and>
      valid_str rt (dict_get row ''subcategory_sentiment_label'' (PStr ''Neutral'')))"

definition sentiment_rows_ok :: "runtime \<Rightarrow> pydict list \<Rightarrow> bool" where
  "sentiment_rows_ok rt db_rows =
     list_all (sentiment_fields_ok rt) (filter has_category_and_subcategory db_rows)"

definition shared_fields_ok :: "runtime \<Rightarrow> pydict \<Rightarrow> bool" where
  "shared_fields_ok rt first_row =
     ((case dict_get first_row ''response_relevancy'' (PStr []) of PStr s \<Rightarrow> True | _ \<Rightarrow> False) \<and>
      valid_str rt (dict_get first_row ''question_label'' (PStr ''COMMENT'')) \<and>
      valid_str rt (dict_get first_row ''question_response'' (PStr [])) \<and>
      valid_str rt (py_or (dict_get first_row ''rewritten_comment'' PNone) (PStr [])) \<and>
      v_optional (v_str rt) (dict_get first_row ''store_key'' PNone) \<noteq> None \<and>
      v_optional (v_str rt) (dict_get first_row ''overall_sentiment_label'' PNone) \<noteq> None \<and>
      v_optional (v_int rt) (dict_get first_row ''overall_sentiment_score'' PNone) \<noteq> None \<and>
      v_optional (v_datetime rt) (dict_get first_row ''visit_datetime'' PNone) \<noteq> None)"

definition well_shaped :: "runtime \<Rightarrow> pydict list \<Rightarrow> bool" where
  "well_shaped rt db_rows =
     (sentiment_rows_ok rt db_rows \<and>
      (case db_rows of [] \<Rightarrow> True | first_row # _ \<Rightarrow> shared_fields_ok rt first_row))"

text \<open>
  The first row whose response id does not print as the first row's has a response id
  (one that differs).
\<close>

definition mixed_response_ids :: "runtime \<Rightarrow> pydict list \<Rightarrow> bool" where
  "mixed_response_ids rt db_rows =
     (case db_rows of
        [] \<Rightarrow> False
      | first_row # _ \<Rightarrow>
          (case map_of first_row ''response_id'' of
             None \<Rightarrow> False
           | Some rid \<Rightarrow>
               (case dropWhile (has_response_id rt (py_str rt rid)) db_rows of
                  [] \<Rightarrow> False
                | row # _ \<Rightarrow> map_of row ''response_id'' \<noteq> None)))"

text \<open>
  The exceptions of the steps after the verification of the response ids: a ValueError
  among them is the one of \<open>float\<close>.
\<close>

definition late_error :: "exn \<Rightarrow> bool" where
  "late_error e = (case e of ValueError m \<Rightarrow> m = ''could not convert string to float'' | _ \<Rightarrow> True)"

section \<open>A runtime to evaluate the model on\<close>

text \<open>
  A small runtime for concrete evaluations: validators that accept a value of the
  field's own type only, an exact \<open>float\<close> of an int, and parsers and printers that know
  the empty JSON array only.
\<close>

definition sample_runtime :: runtime where
  "sample_runtime =
     \<lparr>py_repr = (\<lambda>v. ''<object>''),
      float_of_int = (\<lambda>i. Some (Finite (of_int i))),
      float_of_str = (\<lambda>s. None),
      int_of_str = (\<lambda>s. None),
      json_loads = (\<lambda>s. if s = ''[]'' then Some (PList []) else None),
      json_dumps = (\<lambda>v. if v = PList [] then Some ''[]'' else None),
      v_str = (\<lambda>v. case v of PStr s \<Rightarrow> Some s | _ \<Rightarrow> None),
      v_int = (\<lambda>v. case v of PInt i \<Rightarrow> Some i | _ \<Rightarrow> None),
      v_datetime = (\<lambda>v. case v of PDatetime t \<Rightarrow> Some t | _ \<Rightarrow> None),
      sha256_hex = (\<lambda>s. ''sha256:'' @ s),
      union_as_dict = False\<rparr>"

text \<open>
  Sample rows: a group of three rows of one response, of which the second has no
  category; a row with negative scores; a row whose category score is NULL; a row whose
  relevancy is NULL.
\<close>

definition sample_food_row :: pydict where
  "sample_food_row =
     [(''response_id'', PStr ''r1''),
      (''question_label'', PStr ''COMMENT''),
      (''question_response'', PStr ''Great steak''),
      (''response_relevancy'', PStr ''Nonsense Or Irrelevant''),
      (''profane'', PBool False),
      (''rewritten_comment'', PNone),
      (''overall_sentiment_label'', PStr ''Positive''),
      (''overall_sentiment_score'', PInt 4),
      (''comment_category'', PStr ''Food''),
      (''category_sentiment_label'', PStr ''Positive''),
      (''category_sentiment_score'', PFloat (Finite (51/100))),
      (''comment_subcategory'', PStr ''Flavor''),
      (''subcategory_sentiment_label'', PStr ''Positive''),
      (''subcategory_sentiment_score'', PFloat (Finite (1/2))),
      (''store_key'', PStr ''S1''),
      (''visit_datetime'', PDatetime 1700000000)]"

definition sample_bare_row :: pydict where
  "sample_bare_row =
     [(''response_id'', PStr ''r1''),
      (''question_response'', PStr ''Great steak''),
      (''comment_category'', PNone),
      (''comment_subcategory'', PStr ''Flavor'')]"

definition sample_service_row :: pydict where
  "sample_service_row =
     [(''response_id'', PStr ''r1''),
      (''comment_category'', PStr ''Service''),
      (''category_sentiment_score'', PFloat (Finite (-1/2))),
      (''comment_subcategory'', PStr ''Service Personnel''),
      (''subcategory_sentiment_score'', PInt 0)]"

definition sample_negative_row :: pydict where
  "sample_negative_row =
     [(''response_id'', PStr ''r6''),
      (''comment_category'', PStr ''Food''),
      (''category_sentiment_score'', PFloat (Finite (-9/10))),
      (''comment_subcategory'', PStr ''Quality''),
      (''subcategory_sentiment_score'', PInt (- 1))]"

definition null_score_row :: pydict where
  "null_score_row =
     [(''response_id'', PStr ''r2''),
      (''response_relevancy'', PStr ''useful''),
      (''comment_category'', PStr ''Food''),
      (''category_sentiment_score'', PNone),
      (''comment_subcategory'', PStr ''Flavor'')]"

definition null_relevancy_row :: pydict where
  "null_relevancy_row =
     [(''response_id'', PStr ''r3''),
      (''response_relevancy'', PNone)]"

text \<open>A sample row of the evaluation table.\<close>

definition sample_evaluation_row :: pydict where
  "sample_evaluation_row =
     [(''response_id'', PStr ''r1''),
      (''question_label'', PStr ''COMMENT''),
      (''question_response'', PStr ''Great steak''),
      (''profane'', PBool False),
      (''rewritten_comment'', PNone),
      (''irrelevant'', PBool True),
      (''human_eval_overall_sentiment_label'', PStr ''Positive''),
      (''human_eval_overall_sentiment_score'', PInt 4),
      (''human_eval_category_sentiments'', PStr ''[]'')]"

text \<open>Sample human evaluation data.\<close>

definition sample_human_eval :: pydict where
  "sample_human_eval =
     [(''question_response'', PStr ''Great steak''),
      (''irrelevant'', PBool True),
      (''profane'', PBool True),
      (''overall_sentiment_score'', PInt 2)]"

definition sample_profane_eval :: pydict where
  "sample_profane_eval = [(''profane'', PBool True), (''category_sentiments'', PList [])]"

section \<open>Sample worlds and requests\<close>

text \<open>The columns of the last \<open>MERGE\<close> issued, and the text written to one of them.\<close>

fun last_merge :: "statement list \<Rightarrow> (string \<times> string) list option" where
  "last_merge [] = None"
| "last_merge (st # sts) =
     (case last_merge sts of
        Some cols \<Rightarrow> Some cols
      | None \<Rightarrow> (case st of Merge cols \<Rightarrow> Some cols | _ \<Rightarrow> None))"

definition written :: "world \<Rightarrow> string \<Rightarrow> string option" where
  "written w k = (case last_merge (issued w) of None \<Rightarrow> None | Some cols \<Rightarrow> map_of cols k)"

text \<open>
  A sample world: the warehouse knows the response \<open>r4\<close>, an irrelevant comment with one
  row and no evaluation; every statement succeeds. Three sample requests, the relevancy
  shown for a review, and a sample review detail.
\<close>

definition irrelevant_row :: pydict where
  "irrelevant_row =
     [(''response_id'', PStr ''r4''),
      (''question_response'', PStr ''asdf''),
      (''response_relevancy'', PStr ''nonsense or irrelevant'')]"

definition sample_world :: world where
  "sample_world =
     \<lparr>connect_error = None,
      evaluation_rows = (\<lambda>rid. Inr []),
      source_rows = (\<lambda>rid. if rid = ''r4'' then Inr [irrelevant_row] else Inr []),
      ensure_evaluation_table = None,
      ensure_recommendations_table = None,
      merge_ok = (\<lambda>cols. True),
      mock_reviews = [],
      issued = []\<rparr>"

definition accept_request :: ValidationRequest where
  "accept_request = \<lparr>updated_labels = None, decision = ACCEPT, corrections_made = None\<rparr>"

definition skip_request :: ValidationRequest where
  "skip_request = \<lparr>updated_labels = None, decision = SKIP, corrections_made = None\<rparr>"

definition override_request :: ValidationRequest where
  "override_request = \<lparr>updated_labels = None, decision = OVERRIDE, corrections_made = Some 0\<rparr>"

definition displayed_irrelevant :: "runtime \<Rightarrow> world \<Rightarrow> string \<Rightarrow> pyval option" where
  "displayed_irrelevant rt w rid =
     (case fst (get_review_detail rt w rid True) of
        Inl e \<Rightarrow> None
      | Inr review \<Rightarrow> Some (sentiment_irrelevant (sentiment_analysis review)))"

definition sample_detail :: ReviewDetail where
  "sample_detail =
     \<lparr>response_id = ''r5'',
      question_label = ''COMMENT'',
      question_response = ''What time does the mall close?'',
      relevant_comments = ''What time does the mall close?'',
      profanity_check = True,
      profane = False,
      rewritten_comment = None,
      sentiment_analysis = SADict [(''irrelevant'', PBool True)],
      created_at = None,
      store_id = Some ''STORE_001'',
      status = RANDOM_SAMPLE,
      overall_sentiment_label = None,
      overall_sentiment_score = Some 3,
      category_sentiments = None,
      validation_status = Some ''pending'',
      user_corrections = None,
      accuracy_score = None\<rparr>"

section \<open>Properties of the formatter\<close>

lemma replace_char_concat:
  "replace_char old new s = concat (map (\<lambda>c. if c = old then new else [c]) s)"
  by (induction s) simp_all

lemma digit_val_digit_char: "d < 10 \<Longrightarrow> digit_val (digit_char d) = d"
  by (simp add: digit_val_def digit_char_def)

lemma nat_of_digits_snoc:
  "nat_of_digits (s @ [c]) = 10 * nat_of_digits s + digit_val c"
  by (simp add: nat_of_digits_def)

lemma nat_of_digits_digits: "nat_of_digits (digits n) = n"
proof (induction n rule: digits.induct)
  case (1 n)
  show ?case
  proof (cases "n < 10")
    case True
    then show ?thesis
      by (subst digits.simps) (simp add: nat_of_digits_def digit_val_digit_char)
  next
    case False
    with 1 have "nat_of_digits (digits (n div 10)) = n div 10" by simp
    with False show ?thesis
      by (subst digits.simps) (simp add: nat_of_digits_snoc digit_val_digit_char)
  qed
qed

lemma digits_not_Nil: "digits n \<noteq> []"
  by (subst digits.simps) simp

lemma of_char_digit_char: "d < 10 \<Longrightarrow> (of_char (digit_char d) :: nat) = 48 + d"
  by (simp add: digit_char_def)

lemma digit_char_not_minus: "d < 10 \<Longrightarrow> digit_char d \<noteq> CHR ''-''"
proof
  assume d: "d < 10" and e: "digit_char d = CHR ''-''"
  from e have "(of_char (digit_char d) :: nat) = of_char (CHR ''-'')" by simp
  with d show False by (simp add: of_char_digit_char)
qed

lemma hd_digits_not_minus: "hd (digits n) \<noteq> CHR ''-''"
proof (induction n rule: digits.induct)
  case (1 n)
  show ?case
  proof (cases "n < 10")
    case True
    then show ?thesis
      by (subst digits.simps) (simp add: digit_char_not_minus)
  next
    case False
    with 1 have "hd (digits (n div 10)) \<noteq> CHR ''-''" by simp
    with False show ?thesis
      by (subst digits.simps) (simp add: digits_not_Nil)
  qed
qed

lemma int_of_decimal_str_int: "int_of_decimal (str_int i) = i"
proof (cases "i < 0")
  case True
  then show ?thesis
    by (simp add: str_int_def int_of_decimal_def nat_of_digits_digits)
next
  case False
  obtain c cs where d: "digits (nat i) = c # cs"
    using digits_not_Nil [of "nat i"] by (cases "digits (nat i)") auto
  have "c \<noteq> CHR ''-''"
    using hd_digits_not_minus [of "nat i"] d by simp
  moreover have "nat_of_digits (c # cs) = nat i"
    using nat_of_digits_digits [of "nat i"] d by simp
  ultimately show ?thesis
    using False d by (simp add: str_int_def int_of_decimal_def)
qed

lemma is_digit_digit_char: "d < 10 \<Longrightarrow> is_digit (digit_char d)"
  by (simp add: is_digit_def of_char_digit_char)

lemma is_digit_not_point: "is_digit c \<Longrightarrow> c \<noteq> CHR ''.''"
  by (auto simp: is_digit_def)

lemma digits_all_digits: "list_all is_digit (digits n)"
proof (induction n rule: digits.induct)
  case (1 n)
  show ?case
  proof (cases "n < 10")
    case True
    then show ?thesis
      by (subst digits.simps) (simp add: is_digit_digit_char)
  next
    case False
    with 1 have "list_all is_digit (digits (n div 10))" by simp
    with False show ?thesis
      by (subst digits.simps) (simp add: is_digit_digit_char)
  qed
qed

lemma all_digits_decimal:
  assumes "list_all is_digit body" and "body \<noteq> []"
  shows "list_ex is_digit body
       \<and> list_all (\<lambda>c. is_digit c \<or> c = CHR ''.'') body
       \<and> length (filter (\<lambda>c. c = CHR ''.'') body) \<le> 1"
proof -
  from assms have 1: "list_ex is_digit body"
    by (cases body) simp_all
  from assms(1) have 2: "list_all (\<lambda>c. is_digit c \<or> c = CHR ''.'') body"
    by (simp add: list_all_iff)
  from assms(1) have "filter (\<lambda>c. c = CHR ''.'') body = []"
    by (auto simp: list_all_iff filter_empty_conv dest: is_digit_not_point)
  with 1 2 show ?thesis by simp
qed

lemma decimal_text_str_int: "decimal_text (str_int i)"
proof (cases "i < 0")
  case True
  then show ?thesis
    using all_digits_decimal [OF digits_all_digits digits_not_Nil, of "nat (- i)"]
    by (simp add: decimal_text_def str_int_def)
next
  case False
  obtain c cs where d: "digits (nat i) = c # cs"
    using digits_not_Nil [of "nat i"] by (cases "digits (nat i)") auto
  have "c \<noteq> CHR ''-''"
    using hd_digits_not_minus [of "nat i"] d by simp
  with False d show ?thesis
    using all_digits_decimal [OF digits_all_digits digits_not_Nil, of "nat i"]
    by (simp add: decimal_text_def str_int_def)
qed

text \<open>
  C9, as amended. The SQL value formatter is NULL-safe and escapes correctly: None maps to
  the literal \<open>NULL\<close> and no value maps to the empty string; a string maps to a
  single-quoted literal in which every single quote of the input is doubled and every
  other character is kept, in order; a boolean maps to \<open>TRUE\<close> or \<open>FALSE\<close>; an int maps
  to its decimal text (the text that reads back as the int); a float maps to the text
  \<open>str\<close> gives it, which is \<open>nan\<close>, \<open>inf\<close> or \<open>-inf\<close> for a NaN and the infinities (no
  decimal texts), and \<open>0.0\<close> and \<open>-0.0\<close> for the two zeros.
\<close>

theorem format_sql_value_null_safe_and_escaped:
  "format_sql_value rt PNone = ''NULL''
   \<and> format_sql_value rt (PStr s) =
       [quote] @ concat (map (\<lambda>c. if c = quote then [quote, quote] else [c]) s) @ [quote]
   \<and> format_sql_value rt (PStr s) \<noteq> []
   \<and> format_sql_value rt (PBool True) = ''TRUE''
   \<and> format_sql_value rt (PBool False) = ''FALSE''
   \<and> format_sql_value rt (PInt i) = str_int i
   \<and> int_of_decimal (format_sql_value rt (PInt i)) = i
   \<and> decimal_text (format_sql_value rt (PInt i))
   \<and> format_sql_value rt (PInt i) \<noteq> []
   \<and> format_sql_value rt (PFloat f) = py_str rt (PFloat f)
   \<and> format_sql_value rt (PFloat NaN) = ''nan''
   \<and> format_sql_value rt (PFloat PosInf) = ''inf''
   \<and> format_sql_value rt (PFloat NegInf) = ''-inf''
   \<and> format_sql_value rt (PFloat (Finite 0)) = ''0.0''
   \<and> format_sql_value rt (PFloat NegZero) = ''-0.0''
   \<and> \<not> decimal_text (format_sql_value rt (PFloat NaN))
   \<and> \<not> decimal_text (format_sql_value rt (PFloat PosInf))
   \<and> \<not> decimal_text (format_sql_value rt (PFloat NegInf))"
proof -
  have n: "str_int i \<noteq> []"
    by (simp add: str_int_def digits_not_Nil)
  have t: "\<not> decimal_text ''nan''" "\<not> decimal_text ''inf''" "\<not> decimal_text ''-inf''"
    by (simp_all add: decimal_text_def is_digit_def)
  from n t show ?thesis
    by (simp add: replace_char_concat py_str_def float_str_def int_of_decimal_str_int
          decimal_text_str_int)
qed

text \<open>A name with an apostrophe, a negative int, None and the negative zero.\<close>

theorem format_sql_value_null_safe_and_escaped_witness:
  "format_sql_value sample_runtime (PStr (''O'' @ [quote] @ ''Brien'')) =
     [quote] @ ''O'' @ [quote, quote] @ ''Brien'' @ [quote]
   \<and> format_sql_value sample_runtime (PInt (- 407)) = ''-407''
   \<and> format_sql_value sample_runtime PNone = ''NULL''
   \<and> format_sql_value sample_runtime (PFloat NegZero) = ''-0.0''"
proof -
  have d: "str_int (- 407) = ''-407''"
    by code_simp
  from format_sql_value_null_safe_and_escaped
         [of sample_runtime "''O'' @ [quote] @ ''Brien''" "- 407"] d
  show ?thesis
    by (simp add: quote_def)
qed

text \<open>
  Not every number maps to a decimal text: a NaN is written as \<open>nan\<close> and an infinity as
  \<open>inf\<close>.
\<close>

theorem float_text_counterexample:
  "format_sql_value sample_runtime (PFloat NaN) = ''nan''
   \<and> \<not> decimal_text (format_sql_value sample_runtime (PFloat NaN))
   \<and> format_sql_value sample_runtime (PFloat PosInf) = ''inf''
   \<and> \<not> decimal_text (format_sql_value sample_runtime (PFloat PosInf))
   \<and> decimal_text (format_sql_value sample_runtime (PInt (- 407)))"
  by code_simp

section \<open>Properties of the row-grouping converter\<close>

lemma py_in_sublist: "py_in sub s = sublist sub s"
  by (induction s) (simp_all add: sublist_Cons_right)

lemma verify_response_ids_iff:
  "verify_response_ids rt rid rows = Inr () \<longleftrightarrow> list_all (has_response_id rt rid) rows"
  by (induction rows) (auto simp: has_response_id_def subscript_def split: option.splits)

lemma verify_response_ids_Inr:
  "verify_response_ids rt rid rows = Inr u \<longleftrightarrow> list_all (has_response_id rt rid) rows"
  using verify_response_ids_iff [of rt rid rows] by (cases u) simp

lemma floatable_iff: "floatable rt v \<longleftrightarrow> (\<exists>f. py_float rt v = Inr f)"
  by (cases "py_float rt v") (simp_all add: floatable_def)

lemma valid_str_iff: "valid_str rt v \<longleftrightarrow> (\<exists>s. v_str rt v = Some s)"
  by (simp add: valid_str_def)

lemma truthy_dict_get_subscript:
  "truthy (dict_get row k PNone) \<Longrightarrow> subscript row k = Inr (dict_get row k PNone)"
  by (auto simp: subscript_def dict_get_def split: option.splits)

lemma category_sentiment_of_row_ok:
  assumes "has_category_and_subcategory row"
  shows "(\<exists>c. category_sentiment_of_row rt row = Inr c) \<longleftrightarrow> sentiment_fields_ok rt row"
proof -
  from assms have c: "subscript row ''comment_category'' = Inr (dict_get row ''comment_category'' PNone)"
    and s: "subscript row ''comment_subcategory'' = Inr (dict_get row ''comment_subcategory'' PNone)"
    by (simp_all add: has_category_and_subcategory_def truthy_dict_get_subscript)
  show ?thesis
    unfolding category_sentiment_of_row_def sentiment_fields_ok_def floatable_iff valid_str_iff c s
    by (simp split: sum.splits option.splits)
qed

lemma build_category_sentiments_ok:
  "(\<exists>cs. build_category_sentiments rt rows = Inr cs) \<longleftrightarrow> sentiment_rows_ok rt rows"
proof (induction rows)
  case Nil
  show ?case by (simp add: sentiment_rows_ok_def)
next
  case (Cons row rows)
  show ?case
  proof (cases "has_category_and_subcategory row")
    case False
    with Cons show ?thesis by (simp add: sentiment_rows_ok_def)
  next
    case True
    have "(\<exists>cs. build_category_sentiments rt (row # rows) = Inr cs) \<longleftrightarrow>
          (\<exists>c. category_sentiment_of_row rt row = Inr c) \<and>
          (\<exists>cs. build_category_sentiments rt rows = Inr cs)"
      using True by (auto split: sum.splits)
    with Cons True show ?thesis
      by (simp add: category_sentiment_of_row_ok sentiment_rows_ok_def)
  qed
qed

lemma build_category_sentiments_entries:
  "build_category_sentiments rt rows = Inr cs \<Longrightarrow>
   list_all2 (\<lambda>row c. category_sentiment_of_row rt row = Inr c)
     (filter has_category_and_subcategory rows) cs"
  by (induction rows arbitrary: cs) (auto split: sum.splits if_splits)

lemma py_lower_Inr: "py_lower v = Inr s \<longleftrightarrow> (\<exists>r. v = PStr r \<and> s = lower r)"
  by (cases v) (auto simp: py_lower_def)

lemma source_review_summary_Inr:
  "source_review_summary rt first_row rid rel sentiments = Inr review \<longleftrightarrow>
     (\<exists>ql qr rw store label score visit.
        v_str rt (dict_get first_row ''question_label'' (PStr ''COMMENT'')) = Some ql
      \<and> v_str rt (dict_get first_row ''question_response'' (PStr [])) = Some qr
      \<and> v_str rt (py_or (dict_get first_row ''rewritten_comment'' PNone) (PStr [])) = Some rw
      \<and> v_optional (v_str rt) (dict_get first_row ''store_key'' PNone) = Some store
      \<and> v_optional (v_str rt) (dict_get first_row ''overall_sentiment_label'' PNone) = Some label
      \<and> v_optional (v_int rt) (dict_get first_row ''overall_sentiment_score'' PNone) = Some score
      \<and> v_optional (v_datetime rt) (dict_get first_row ''visit_datetime'' PNone) = Some visit
      \<and> review =
          \<lparr>response_id = rid, question_label = ql, question_response = qr,
           relevant_comments = qr, profanity_check = True,
           profane = truthy (dict_get first_row ''profane'' (PBool False)),
           rewritten_comment = Some rw,
           sentiment_analysis =
             SAModel \<lparr>irrelevant = is_irrelevant rel, aspects = None,
                      sa_category_sentiments = Some sentiments\<rparr>,
           created_at = visit, store_id = store,
           status = (if flagged_for_review sentiments then RECOMMENDED else RANDOM_SAMPLE),
           overall_sentiment_label = label, overall_sentiment_score = score,
           category_sentiments = Some sentiments\<rparr>)"
  unfolding source_review_summary_def
  by (simp split: option.splits) blast

lemma case_sum_Inr_iff:
  "(case m of Inl e \<Rightarrow> Inl e | Inr x \<Rightarrow> f x) = Inr y \<longleftrightarrow> (\<exists>x. m = Inr x \<and> f x = Inr y)"
  by (cases m) auto

lemma subscript_Inr_iff: "subscript d k = Inr v \<longleftrightarrow> map_of d k = Some v"
  by (cases "map_of d k") (simp_all add: subscript_def)

lemma flattened_rows_review_Inr:
  "flattened_rows_review rt db_rows = Inr review \<longleftrightarrow>
     (\<exists>first_row rest rid sentiments rel.
        db_rows = first_row # rest
      \<and> map_of first_row ''response_id'' = Some rid
      \<and> list_all (has_response_id rt (py_str rt rid)) db_rows
      \<and> build_category_sentiments rt db_rows = Inr sentiments
      \<and> dict_get first_row ''response_relevancy'' (PStr []) = PStr rel
      \<and> source_review_summary rt first_row (py_str rt rid) (lower rel) sentiments = Inr review)"
proof (cases db_rows)
  case Nil
  then show ?thesis by (simp add: flattened_rows_review_def)
next
  case (Cons first_row rest)
  show ?thesis
    unfolding flattened_rows_review_def Cons
    by (simp add: case_sum_Inr_iff subscript_Inr_iff verify_response_ids_Inr py_lower_Inr
          del: verify_response_ids.simps build_category_sentiments.simps list.pred_inject)
       blast
qed


lemma convert_flattened_Inr:
  "convert_flattened_rows_to_review rt db_rows = Inr review \<longleftrightarrow>
   flattened_rows_review rt db_rows = Inr review"
  by (cases "flattened_rows_review rt db_rows") (simp_all add: convert_flattened_rows_to_review_def)

lemma convert_flattened_Inl:
  "convert_flattened_rows_to_review rt db_rows = Inl (HTTPException c (DataConversionError e)) \<longleftrightarrow>
   c = 500 \<and> flattened_rows_review rt db_rows = Inl e"
  by (cases "flattened_rows_review rt db_rows")
     (auto simp: convert_flattened_rows_to_review_def)

lemma source_review_summary_ok:
  "(\<exists>review. source_review_summary rt first_row rid rel sentiments = Inr review) \<longleftrightarrow>
     valid_str rt (dict_get first_row ''question_label'' (PStr ''COMMENT'')) \<and>
     valid_str rt (dict_get first_row ''question_response'' (PStr [])) \<and>
     valid_str rt (py_or (dict_get first_row ''rewritten_comment'' PNone) (PStr [])) \<and>
     v_optional (v_str rt) (dict_get first_row ''store_key'' PNone) \<noteq> None \<and>
     v_optional (v_str rt) (dict_get first_row ''overall_sentiment_label'' PNone) \<noteq> None \<and>
     v_optional (v_int rt) (dict_get first_row ''overall_sentiment_score'' PNone) \<noteq> None \<and>
     v_optional (v_datetime rt) (dict_get first_row ''visit_datetime'' PNone) \<noteq> None"
  unfolding source_review_summary_Inr valid_str_iff by auto

lemma shares_response_id_Cons:
  "shares_response_id rt (first_row # rest) \<longleftrightarrow>
     (\<exists>rid. map_of first_row ''response_id'' = Some rid \<and>
            list_all (has_response_id rt (py_str rt rid)) (first_row # rest))"
  by (cases "map_of first_row ''response_id''") (simp_all add: shares_response_id_def)

lemma relevancy_is_str:
  "(case v of PStr s \<Rightarrow> True | _ \<Rightarrow> False) \<longleftrightarrow> (\<exists>rel. v = PStr rel)"
  by (cases v) simp_all

lemma convert_succeeds_iff:
  "(\<exists>review. convert_flattened_rows_to_review rt db_rows = Inr review) \<longleftrightarrow>
     db_rows \<noteq> [] \<and> shares_response_id rt db_rows \<and> well_shaped rt db_rows"
proof (cases db_rows)
  case Nil
  then show ?thesis by (simp add: convert_flattened_Inr flattened_rows_review_def)
next
  case (Cons first_row rest)
  have "(\<exists>review. flattened_rows_review rt db_rows = Inr review) \<longleftrightarrow>
        (\<exists>rid sentiments rel. map_of first_row ''response_id'' = Some rid
            \<and> list_all (has_response_id rt (py_str rt rid)) db_rows
            \<and> build_category_sentiments rt db_rows = Inr sentiments
            \<and> dict_get first_row ''response_relevancy'' (PStr []) = PStr rel
            \<and> (\<exists>review. source_review_summary rt first_row (py_str rt rid) (lower rel) sentiments = Inr review))"
    unfolding flattened_rows_review_Inr Cons by blast
  also have "\<dots> \<longleftrightarrow>
        (\<exists>rid. map_of first_row ''response_id'' = Some rid
            \<and> list_all (has_response_id rt (py_str rt rid)) db_rows)
        \<and> (\<exists>sentiments. build_category_sentiments rt db_rows = Inr sentiments)
        \<and> (\<exists>rel. dict_get first_row ''response_relevancy'' (PStr []) = PStr rel)
        \<and> (\<exists>review. source_review_summary rt first_row [] [] [] = Inr review)"
    unfolding source_review_summary_ok by blast
  finally have "(\<exists>review. flattened_rows_review rt db_rows = Inr review) \<longleftrightarrow>
        (\<exists>rid. map_of first_row ''response_id'' = Some rid
            \<and> list_all (has_response_id rt (py_str rt rid)) db_rows)
        \<and> (\<exists>sentiments. build_category_sentiments rt db_rows = Inr sentiments)
        \<and> (\<exists>rel. dict_get first_row ''response_relevancy'' (PStr []) = PStr rel)
        \<and> (\<exists>review. source_review_summary rt first_row [] [] [] = Inr review)" .
  then show ?thesis
    unfolding convert_flattened_Inr
    by (simp add: Cons shares_response_id_Cons build_category_sentiments_ok well_shaped_def
          shared_fields_ok_def source_review_summary_ok relevancy_is_str
          del: build_category_sentiments.simps list.pred_inject)
qed

lemma case_sum_Inl_iff:
  "(case m of Inl e \<Rightarrow> Inl e | Inr x \<Rightarrow> f x) = Inl err \<longleftrightarrow>
     m = Inl err \<or> (\<exists>x. m = Inr x \<and> f x = Inl err)"
  by (cases m) auto

lemma verify_response_ids_dropWhile:
  "verify_response_ids rt rid rows =
     (case dropWhile (has_response_id rt rid) rows of
        [] \<Rightarrow> Inr ()
      | row # _ \<Rightarrow>
          (case map_of row ''response_id'' of
             None \<Rightarrow> Inl (KeyError ''response_id'')
           | Some v \<Rightarrow>
               Inl (ValueError (''Mixed response IDs in rows: '' @ rid @ '' vs '' @ py_str rt v))))"
  by (induction rows) (auto simp: has_response_id_def subscript_def split: option.splits)

lemma py_float_error:
  "py_float rt v = Inl e \<Longrightarrow>
   e = TypeError \<or> e = OverflowError \<or> e = ValueError ''could not convert string to float''"
  by (cases v) (auto split: option.splits)

lemma py_float_late: "py_float rt v = Inl e \<Longrightarrow> late_error e"
  by (drule py_float_error) (auto simp: late_error_def)

lemma late_error_simps [simp]:
  "late_error TypeError" "late_error OverflowError" "late_error AttributeError"
  "late_error ValidationError" "late_error (KeyError k)" "late_error JSONDecodeError"
  "late_error (ValueError m) \<longleftrightarrow> m = ''could not convert string to float''"
  by (simp_all add: late_error_def)

lemma category_sentiment_of_row_late':
  "case category_sentiment_of_row rt row of Inl e \<Rightarrow> late_error e | Inr c \<Rightarrow> True"
  unfolding category_sentiment_of_row_def
  by (simp add: subscript_def py_float_late split: sum.splits option.splits)

lemma category_sentiment_of_row_late:
  "category_sentiment_of_row rt row = Inl e \<Longrightarrow> late_error e"
  using category_sentiment_of_row_late' [of rt row] by simp

lemma build_category_sentiments_late':
  "case build_category_sentiments rt rows of Inl e \<Rightarrow> late_error e | Inr c \<Rightarrow> True"
  by (induction rows) (simp_all add: category_sentiment_of_row_late split: sum.splits)

lemma build_category_sentiments_late:
  "build_category_sentiments rt rows = Inl e \<Longrightarrow> late_error e"
  using build_category_sentiments_late' [of rt rows] by simp

lemma py_lower_late: "py_lower v = Inl e \<Longrightarrow> late_error e"
  by (cases v) (auto simp: py_lower_def)

lemma source_review_summary_late':
  "case source_review_summary rt first_row rid rel sentiments of
     Inl e \<Rightarrow> late_error e | Inr r \<Rightarrow> True"
  unfolding source_review_summary_def
  by (simp split: option.splits)

lemma source_review_summary_late:
  "source_review_summary rt first_row rid rel sentiments = Inl e \<Longrightarrow> late_error e"
  using source_review_summary_late' [of rt first_row rid rel sentiments] by simp

text \<open>After the response ids are verified, only late errors remain.\<close>

lemma flattened_rows_review_Cons:
  "flattened_rows_review rt (first_row # rest) =
     (case map_of first_row ''response_id'' of
        None \<Rightarrow> Inl (KeyError ''response_id'')
      | Some rid \<Rightarrow>
          (case verify_response_ids rt (py_str rt rid) (first_row # rest) of
             Inl e \<Rightarrow> Inl e
           | Inr u \<Rightarrow>
               (case build_category_sentiments rt (first_row # rest) of
                  Inl e \<Rightarrow> Inl e
                | Inr sentiments \<Rightarrow>
                    (case py_lower (dict_get first_row ''response_relevancy'' (PStr [])) of
                       Inl e \<Rightarrow> Inl e
                     | Inr rel \<Rightarrow>
                         source_review_summary rt first_row (py_str rt rid) rel sentiments))))"
  by (simp add: flattened_rows_review_def subscript_def
        del: verify_response_ids.simps build_category_sentiments.simps
        split: option.splits)

lemma flattened_rows_review_after_verify:
  assumes "map_of first_row ''response_id'' = Some rid"
    and "verify_response_ids rt (py_str rt rid) (first_row # rest) = Inr u"
    and "flattened_rows_review rt (first_row # rest) = Inl e"
  shows "late_error e"
  using assms(3) unfolding flattened_rows_review_Cons assms(1) option.case assms(2) sum.case
  by (auto simp: case_sum_Inl_iff
        dest: build_category_sentiments_late py_lower_late source_review_summary_late
        simp del: build_category_sentiments.simps)


lemma flattened_rows_review_verify_fails:
  assumes "map_of first_row ''response_id'' = Some rid"
    and "verify_response_ids rt (py_str rt rid) (first_row # rest) = Inl e"
  shows "flattened_rows_review rt (first_row # rest) = Inl e"
  unfolding flattened_rows_review_Cons assms(1) option.case assms(2) sum.case ..

lemma not_late_no_rows: "\<not> late_error (ValueError ''No rows provided'')"
  by simp

lemma not_late_mixed:
  "\<not> late_error (ValueError (''Mixed response IDs in rows: '' @ a @ '' vs '' @ b))"
  by simp

lemma no_rows_error_iff:
  "flattened_rows_review rt db_rows = Inl (ValueError ''No rows provided'') \<longleftrightarrow> db_rows = []"
proof (cases db_rows)
  case Nil
  then show ?thesis by (simp add: flattened_rows_review_def)
next
  case (Cons first_row rest)
  have "flattened_rows_review rt (first_row # rest) \<noteq> Inl (ValueError ''No rows provided'')"
  proof (cases "map_of first_row ''response_id''")
    case None
    then show ?thesis by (simp add: flattened_rows_review_Cons)
  next
    case (Some rid)
    show ?thesis
    proof (cases "verify_response_ids rt (py_str rt rid) (first_row # rest)")
      case (Inr u)
      from flattened_rows_review_after_verify [OF Some Inr] not_late_no_rows
      show ?thesis by blast
    next
      case (Inl e)
      have "e \<noteq> ValueError ''No rows provided''"
        using Inl unfolding verify_response_ids_dropWhile
        by (auto split: list.splits option.splits)
      with flattened_rows_review_verify_fails [OF Some Inl] show ?thesis by simp
    qed
  qed
  with Cons show ?thesis by simp
qed

lemma mixed_error_iff:
  "(\<exists>a b. flattened_rows_review rt db_rows =
       Inl (ValueError (''Mixed response IDs in rows: '' @ a @ '' vs '' @ b)))
   \<longleftrightarrow> mixed_response_ids rt db_rows"
proof (cases db_rows)
  case Nil
  then show ?thesis by (simp add: flattened_rows_review_def mixed_response_ids_def)
next
  case (Cons first_row rest)
  show ?thesis
  proof (cases "map_of first_row ''response_id''")
    case None
    then show ?thesis
      by (simp add: Cons flattened_rows_review_Cons mixed_response_ids_def)
  next
    case (Some rid)
    show ?thesis
    proof (cases "dropWhile (has_response_id rt (py_str rt rid)) (first_row # rest)")
      case Nil
      have v: "verify_response_ids rt (py_str rt rid) (first_row # rest) = Inr ()"
        by (simp only: verify_response_ids_dropWhile Nil list.case)
      have "\<not> mixed_response_ids rt db_rows"
        by (simp only: Cons Some mixed_response_ids_def Nil list.case option.case simp_thms)
      moreover have "\<And>a b. flattened_rows_review rt db_rows \<noteq>
          Inl (ValueError (''Mixed response IDs in rows: '' @ a @ '' vs '' @ b))"
        using flattened_rows_review_after_verify [OF Some v] not_late_mixed
        unfolding Cons by blast
      ultimately show ?thesis by blast
    next
      case (Cons row more)
      note dw = this
      show ?thesis
      proof (cases "map_of row ''response_id''")
        case None
        have v: "verify_response_ids rt (py_str rt rid) (first_row # rest) =
            Inl (KeyError ''response_id'')"
          by (simp only: verify_response_ids_dropWhile dw None list.case option.case)
        have "\<not> mixed_response_ids rt db_rows"
          by (simp only: \<open>db_rows = first_row # rest\<close> Some mixed_response_ids_def dw None
                list.case option.case simp_thms)
        moreover have "flattened_rows_review rt db_rows = Inl (KeyError ''response_id'')"
          using flattened_rows_review_verify_fails [OF Some v]
          by (simp add: \<open>db_rows = first_row # rest\<close>)
        ultimately show ?thesis by simp
      next
        case (Some v)
        have vr: "verify_response_ids rt (py_str rt rid) (first_row # rest) =
            Inl (ValueError (''Mixed response IDs in rows: '' @ py_str rt rid @ '' vs '' @ py_str rt v))"
          by (simp only: verify_response_ids_dropWhile dw Some list.case option.case)
        have "mixed_response_ids rt db_rows"
          by (simp only: \<open>db_rows = first_row # rest\<close>
                \<open>map_of first_row ''response_id'' = Some rid\<close> mixed_response_ids_def dw Some
                list.case option.case option.distinct simp_thms)
        moreover have "flattened_rows_review rt db_rows =
            Inl (ValueError (''Mixed response IDs in rows: '' @ py_str rt rid @ '' vs '' @ py_str rt v))"
          using flattened_rows_review_verify_fails
            [OF \<open>map_of first_row ''response_id'' = Some rid\<close> vr]
          by (simp add: \<open>db_rows = first_row # rest\<close>)
        ultimately show ?thesis by blast
      qed
    qed
  qed
qed

section \<open>The claims on the row-grouping converter\<close>

text \<open>
  C1, as amended. For every non-empty list of flattened rows that share one response id
  and are well shaped (for each row with category and subcategory the two scores are
  accepted by \<open>float\<close> and category, subcategory and labels validate as strings; the
  relevancy of the first row is a string and its shared fields validate),
  \<open>convert_flattened_rows_to_review\<close> returns one ReviewSummary whose
  \<open>category_sentiments\<close> list (the same list as in its sentiment analysis) has exactly
  one entry per input row that has both a non-empty \<open>comment_category\<close> and a non-empty
  \<open>comment_subcategory\<close>, in input order, each built from its row; the other rows give no
  entry; question label, question response, profanity, store and timestamp are those of
  the first row.
\<close>

theorem one_entry_per_populated_row:
  assumes "db_rows = first_row # rest"
    and "shares_response_id rt db_rows"
    and "well_shaped rt db_rows"
  shows "\<exists>review sentiments.
           convert_flattened_rows_to_review rt db_rows = Inr review
         \<and> category_sentiments review = Some sentiments
         \<and> (\<exists>sa. sentiment_analysis review = SAModel sa \<and> sa_category_sentiments sa = Some sentiments)
         \<and> list_all2 (\<lambda>row c. category_sentiment_of_row rt row = Inr c)
              (filter has_category_and_subcategory db_rows) sentiments
         \<and> length sentiments = length (filter has_category_and_subcategory db_rows)
         \<and> v_str rt (dict_get first_row ''question_label'' (PStr ''COMMENT'')) = Some (question_label review)
         \<and> v_str rt (dict_get first_row ''question_response'' (PStr [])) = Some (question_response review)
         \<and> profane review = truthy (dict_get first_row ''profane'' (PBool False))
         \<and> v_optional (v_str rt) (dict_get first_row ''store_key'' PNone) = Some (store_id review)
         \<and> v_optional (v_datetime rt) (dict_get first_row ''visit_datetime'' PNone) = Some (created_at review)"
proof -
  from assms have "\<exists>review. convert_flattened_rows_to_review rt db_rows = Inr review"
    by (simp add: convert_succeeds_iff)
  then obtain review where c: "convert_flattened_rows_to_review rt db_rows = Inr review" ..
  then have "flattened_rows_review rt db_rows = Inr review"
    by (simp add: convert_flattened_Inr)
  then obtain rid sentiments rel where
      b: "build_category_sentiments rt db_rows = Inr sentiments"
    and s: "source_review_summary rt first_row (py_str rt rid) (lower rel) sentiments = Inr review"
    unfolding flattened_rows_review_Inr assms(1) by auto
  from build_category_sentiments_entries [OF b]
  have e: "list_all2 (\<lambda>row c. category_sentiment_of_row rt row = Inr c)
              (filter has_category_and_subcategory db_rows) sentiments" .
  then have l: "length sentiments = length (filter has_category_and_subcategory db_rows)"
    by (simp add: list_all2_lengthD)
  from s obtain ql qr rw store label score visit where
      f: "v_str rt (dict_get first_row ''question_label'' (PStr ''COMMENT'')) = Some ql"
         "v_str rt (dict_get first_row ''question_response'' (PStr [])) = Some qr"
         "v_optional (v_str rt) (dict_get first_row ''store_key'' PNone) = Some store"
         "v_optional (v_datetime rt) (dict_get first_row ''visit_datetime'' PNone) = Some visit"
    and r: "review =
          \<lparr>response_id = py_str rt rid, question_label = ql, question_response = qr,
           relevant_comments = qr, profanity_check = True,
           profane = truthy (dict_get first_row ''profane'' (PBool False)),
           rewritten_comment = Some rw,
           sentiment_analysis =
             SAModel \<lparr>irrelevant = is_irrelevant (lower rel), aspects = None,
                      sa_category_sentiments = Some sentiments\<rparr>,
           created_at = visit, store_id = store,
           status = (if flagged_for_review sentiments then RECOMMENDED else RANDOM_SAMPLE),
           overall_sentiment_label = label, overall_sentiment_score = score,
           category_sentiments = Some sentiments\<rparr>"
    unfolding source_review_summary_Inr by blast
  from c e l f show ?thesis
    by (simp add: r)
qed

text \<open>The three sample rows of response \<open>r1\<close> give a review with two entries.\<close>

theorem one_entry_per_populated_row_witness:
  "\<exists>review sentiments.
      convert_flattened_rows_to_review sample_runtime
        [sample_food_row, sample_bare_row, sample_service_row] = Inr review
    \<and> category_sentiments review = Some sentiments
    \<and> length sentiments = 2
    \<and> question_response review = ''Great steak''
    \<and> store_id review = Some ''S1''"
proof -
  have s: "shares_response_id sample_runtime [sample_food_row, sample_bare_row, sample_service_row]"
    by code_simp
  have w: "well_shaped sample_runtime [sample_food_row, sample_bare_row, sample_service_row]"
    by code_simp
  have n: "length (filter has_category_and_subcategory
             [sample_food_row, sample_bare_row, sample_service_row]) = 2"
    by code_simp
  have q: "v_str sample_runtime (dict_get sample_food_row ''question_response'' (PStr [])) =
             Some ''Great steak''"
    by code_simp
  have k: "v_optional (v_str sample_runtime) (dict_get sample_food_row ''store_key'' PNone) =
             Some (Some ''S1'')"
    by code_simp
  from one_entry_per_populated_row [OF refl s w] n q k show ?thesis
    by auto
qed

text \<open>
  Without the condition on the shape the conversion can fail: a single row with category
  and subcategory whose category score is NULL makes \<open>float(None)\<close> raise a TypeError.
\<close>

theorem null_score_counterexample:
  "[null_score_row] \<noteq> []
   \<and> shares_response_id sample_runtime [null_score_row]
   \<and> has_category_and_subcategory null_score_row
   \<and> convert_flattened_rows_to_review sample_runtime [null_score_row] =
       Inl (HTTPException 500 (DataConversionError TypeError))"
  by code_simp

text \<open>
  C8, as amended. The conversion fails with the no-rows error exactly when the input list
  is empty, and with the mixed-response-ids error exactly when the first row whose
  response id does not print as the first row's has a response id (a differing one); a
  non-empty group whose rows share one response id converts without error exactly when
  its rows are well shaped. Every other failure is a data conversion error of another
  kind (a missing key, a value of the wrong type, a field that does not validate).
\<close>

theorem conversion_failures_characterised:
  "(convert_flattened_rows_to_review rt db_rows =
      Inl (HTTPException 500 (DataConversionError (ValueError ''No rows provided'')))
    \<longleftrightarrow> db_rows = [])
   \<and> ((\<exists>a b. convert_flattened_rows_to_review rt db_rows =
         Inl (HTTPException 500 (DataConversionError
           (ValueError (''Mixed response IDs in rows: '' @ a @ '' vs '' @ b)))))
      \<longleftrightarrow> mixed_response_ids rt db_rows)
   \<and> ((\<exists>review. convert_flattened_rows_to_review rt db_rows = Inr review)
      \<longleftrightarrow> db_rows \<noteq> [] \<and> shares_response_id rt db_rows \<and> well_shaped rt db_rows)"
proof -
  have 1: "convert_flattened_rows_to_review rt db_rows =
      Inl (HTTPException 500 (DataConversionError (ValueError ''No rows provided'')))
    \<longleftrightarrow> db_rows = []"
    by (simp add: convert_flattened_Inl no_rows_error_iff)
  have 2: "(\<exists>a b. convert_flattened_rows_to_review rt db_rows =
         Inl (HTTPException 500 (DataConversionError
           (ValueError (''Mixed response IDs in rows: '' @ a @ '' vs '' @ b)))))
      \<longleftrightarrow> mixed_response_ids rt db_rows"
    unfolding convert_flattened_Inl mixed_error_iff [symmetric] by simp
  from 1 2 convert_succeeds_iff [of rt db_rows] show ?thesis by blast
qed

text \<open>
  The three sample rows convert; two rows of different responses give the mixed-ids
  error; the empty list gives the no-rows error.
\<close>

theorem conversion_failures_characterised_witness:
  "(\<exists>review. convert_flattened_rows_to_review sample_runtime
        [sample_food_row, sample_bare_row, sample_service_row] = Inr review)
   \<and> (\<exists>a b. convert_flattened_rows_to_review sample_runtime [sample_food_row, null_score_row] =
         Inl (HTTPException 500 (DataConversionError
           (ValueError (''Mixed response IDs in rows: '' @ a @ '' vs '' @ b)))))
   \<and> convert_flattened_rows_to_review sample_runtime [] =
         Inl (HTTPException 500 (DataConversionError (ValueError ''No rows provided'')))"
proof -
  have s: "shares_response_id sample_runtime [sample_food_row, sample_bare_row, sample_service_row]"
    by code_simp
  have w: "well_shaped sample_runtime [sample_food_row, sample_bare_row, sample_service_row]"
    by code_simp
  have m: "mixed_response_ids sample_runtime [sample_food_row, null_score_row]"
    by code_simp
  from conversion_failures_characterised
         [of sample_runtime "[sample_food_row, sample_bare_row, sample_service_row]"] s w
  have a: "\<exists>review. convert_flattened_rows_to_review sample_runtime
        [sample_food_row, sample_bare_row, sample_service_row] = Inr review"
    by simp
  from conversion_failures_characterised [of sample_runtime "[sample_food_row, null_score_row]"] m
  have b: "\<exists>a b. convert_flattened_rows_to_review sample_runtime [sample_food_row, null_score_row] =
         Inl (HTTPException 500 (DataConversionError
           (ValueError (''Mixed response IDs in rows: '' @ a @ '' vs '' @ b))))"
    by blast
  from conversion_failures_characterised [of sample_runtime "[]"]
  have c: "convert_flattened_rows_to_review sample_runtime [] =
         Inl (HTTPException 500 (DataConversionError (ValueError ''No rows provided'')))"
    by blast
  from a b c show ?thesis by blast
qed

text \<open>
  A group of one row (so its rows share one response id) whose relevancy is NULL fails:
  \<open>None.lower()\<close> raises an AttributeError, neither of the two errors named.
\<close>

theorem null_relevancy_counterexample:
  "[null_relevancy_row] \<noteq> []
   \<and> shares_response_id sample_runtime [null_relevancy_row]
   \<and> \<not> mixed_response_ids sample_runtime [null_relevancy_row]
   \<and> convert_flattened_rows_to_review sample_runtime [null_relevancy_row] =
       Inl (HTTPException 500 (DataConversionError AttributeError))"
  by code_simp

lemma is_irrelevant_sublist:
  "is_irrelevant s \<longleftrightarrow> sublist ''irrelevant'' s \<or> sublist ''nonsense'' s"
  by (simp add: is_irrelevant_def py_in_sublist)

text \<open>
  C2. For every group of flattened rows that converts, \<open>irrelevant\<close> of the sentiment
  analysis of the resulting ReviewSummary is true if and only if the relevancy string of
  the first row, lower-cased, contains \<open>irrelevant\<close> or contains \<open>nonsense\<close> as a
  substring. In particular \<open>profane but useful\<close> gives false and
  \<open>Nonsense Or Irrelevant\<close> gives true; the test is a substring match, so a longer
  string that contains the word gives true as well.
\<close>

theorem irrelevant_iff_relevancy_substring:
  "(convert_flattened_rows_to_review rt (first_row # rest) = Inr review \<longrightarrow>
      (\<exists>rel sa. dict_get first_row ''response_relevancy'' (PStr []) = PStr rel
         \<and> sentiment_analysis review = SAModel sa
         \<and> (irrelevant sa \<longleftrightarrow>
              sublist ''irrelevant'' (lower rel) \<or> sublist ''nonsense'' (lower rel))))
   \<and> \<not> is_irrelevant (lower ''profane but useful'')
   \<and> is_irrelevant (lower ''Nonsense Or Irrelevant'')
   \<and> is_irrelevant (lower ''Partly IRRELEVANT remark'')
   \<and> \<not> is_irrelevant (lower ''useful'')"
proof -
  have "\<exists>rel sa. dict_get first_row ''response_relevancy'' (PStr []) = PStr rel
         \<and> sentiment_analysis review = SAModel sa
         \<and> (irrelevant sa \<longleftrightarrow>
              sublist ''irrelevant'' (lower rel) \<or> sublist ''nonsense'' (lower rel))"
    if c: "convert_flattened_rows_to_review rt (first_row # rest) = Inr review"
  proof -
    from c have "flattened_rows_review rt (first_row # rest) = Inr review"
      by (simp add: convert_flattened_Inr)
    then obtain rid sentiments rel where
        r: "dict_get first_row ''response_relevancy'' (PStr []) = PStr rel"
      and s: "source_review_summary rt first_row (py_str rt rid) (lower rel) sentiments = Inr review"
      unfolding flattened_rows_review_Inr by auto
    from s have "sentiment_analysis review =
        SAModel \<lparr>irrelevant = is_irrelevant (lower rel), aspects = None,
                 sa_category_sentiments = Some sentiments\<rparr>"
      unfolding source_review_summary_Inr by auto
    with r show ?thesis
      by (simp add: is_irrelevant_sublist)
  qed
  moreover have "\<not> is_irrelevant (lower ''profane but useful'')" by code_simp
  moreover have "is_irrelevant (lower ''Nonsense Or Irrelevant'')" by code_simp
  moreover have "is_irrelevant (lower ''Partly IRRELEVANT remark'')" by code_simp
  moreover have "\<not> is_irrelevant (lower ''useful'')" by code_simp
  ultimately show ?thesis by blast
qed

text \<open>The sample row with relevancy \<open>Nonsense Or Irrelevant\<close> gives an irrelevant review.\<close>

theorem irrelevant_iff_relevancy_substring_witness:
  "\<exists>review sa. convert_flattened_rows_to_review sample_runtime [sample_food_row] = Inr review
     \<and> sentiment_analysis review = SAModel sa \<and> irrelevant sa"
proof -
  have "\<exists>review. convert_flattened_rows_to_review sample_runtime [sample_food_row] = Inr review"
    by (simp add: convert_succeeds_iff) code_simp
  then obtain review where
    c: "convert_flattened_rows_to_review sample_runtime [sample_food_row] = Inr review" ..
  have d: "dict_get sample_food_row ''response_relevancy'' (PStr []) = PStr ''Nonsense Or Irrelevant''"
    by code_simp
  have n: "sublist ''nonsense'' (lower ''Nonsense Or Irrelevant'')"
    by code_simp
  from irrelevant_iff_relevancy_substring [of sample_runtime sample_food_row "[]" review] c d n
  show ?thesis by auto
qed

lemma convert_completed_Inr:
  "convert_completed_review_to_summary rt db_row = Inr review \<longleftrightarrow>
   completed_review_summary rt db_row = Inr review"
  by (cases "completed_review_summary rt db_row")
     (simp_all add: convert_completed_review_to_summary_def)

lemma completed_review_summary_status':
  "case completed_review_summary rt db_row of
     Inl e \<Rightarrow> True | Inr review \<Rightarrow> status review = COMPLETED"
  unfolding completed_review_summary_def
  by (simp split: sum.splits option.splits)

lemma completed_review_summary_status:
  "completed_review_summary rt db_row = Inr review \<Longrightarrow> status review = COMPLETED"
  using completed_review_summary_status' [of rt db_row] by simp

lemma flagged_for_review_iff:
  "flagged_for_review sentiments \<longleftrightarrow>
     (\<exists>s \<in> set sentiments.
        float_gt (fabs (category_sentiment_score s)) (Finite (1/2)) \<or>
        float_gt (fabs (subcategory_sentiment_score s)) (Finite (1/2)))"
  by (simp add: flagged_for_review_def list_ex_iff)

lemma flattened_rows_review_status:
  assumes "flattened_rows_review rt db_rows = Inr review"
  shows "\<exists>sentiments. category_sentiments review = Some sentiments
     \<and> status review = (if flagged_for_review sentiments then RECOMMENDED else RANDOM_SAMPLE)"
proof -
  from assms obtain first_row rid sentiments rel where
    s: "source_review_summary rt first_row (py_str rt rid) (lower rel) sentiments = Inr review"
    unfolding flattened_rows_review_Inr by auto
  then show ?thesis
    unfolding source_review_summary_Inr by auto
qed

lemma abs_above_half:
  "float_gt (fabs f) (Finite (1/2)) \<longleftrightarrow>
     (case f of Finite a \<Rightarrow> \<bar>a\<bar> > 1/2 | NegZero \<Rightarrow> False | PosInf \<Rightarrow> True
      | NegInf \<Rightarrow> True | NaN \<Rightarrow> False)"
  by (cases f) simp_all

text \<open>
  C3. A ReviewSummary built from source rows has status \<open>recommended\<close> if and only if
  some sentiment entry has \<open>|category_sentiment_score| > 0.5\<close> or
  \<open>|subcategory_sentiment_score| > 0.5\<close>, and status \<open>random_sample\<close> otherwise. The
  absolute value is that of the real numbers: a score above 0.5 or below -0.5 flags the
  review, as does an infinity; a NaN does not. An entry with score 0.51 or -0.51 flags
  the review, and entries whose absolute scores are all at most 0.5 do not. A
  ReviewSummary built from a row of the evaluation table always has status \<open>completed\<close>.
\<close>

theorem status_recommended_iff_extreme_score:
  "(convert_flattened_rows_to_review rt db_rows = Inr review \<longrightarrow>
      (\<exists>sentiments. category_sentiments review = Some sentiments
        \<and> (status review = RECOMMENDED \<longleftrightarrow>
             (\<exists>s \<in> set sentiments.
                (case category_sentiment_score s of
                   Finite a \<Rightarrow> \<bar>a\<bar> > 1/2 | NegZero \<Rightarrow> False | PosInf \<Rightarrow> True
                 | NegInf \<Rightarrow> True | NaN \<Rightarrow> False) \<or>
                (case subcategory_sentiment_score s of
                   Finite b \<Rightarrow> \<bar>b\<bar> > 1/2 | NegZero \<Rightarrow> False | PosInf \<Rightarrow> True
                 | NegInf \<Rightarrow> True | NaN \<Rightarrow> False)))
        \<and> (status review = RANDOM_SAMPLE \<longleftrightarrow>
             \<not> (\<exists>s \<in> set sentiments.
                (case category_sentiment_score s of
                   Finite a \<Rightarrow> \<bar>a\<bar> > 1/2 | NegZero \<Rightarrow> False | PosInf \<Rightarrow> True
                 | NegInf \<Rightarrow> True | NaN \<Rightarrow> False) \<or>
                (case subcategory_sentiment_score s of
                   Finite b \<Rightarrow> \<bar>b\<bar> > 1/2 | NegZero \<Rightarrow> False | PosInf \<Rightarrow> True
                 | NegInf \<Rightarrow> True | NaN \<Rightarrow> False)))))
   \<and> ((\<exists>s \<in> set entries. category_sentiment_score s = Finite (51/100))
        \<longrightarrow> flagged_for_review entries)
   \<and> ((\<exists>s \<in> set entries. category_sentiment_score s = Finite (- 51/100))
        \<longrightarrow> flagged_for_review entries)
   \<and> ((\<exists>s \<in> set entries. subcategory_sentiment_score s = Finite (51/100))
        \<longrightarrow> flagged_for_review entries)
   \<and> ((\<exists>s \<in> set entries. subcategory_sentiment_score s = Finite (- 51/100))
        \<longrightarrow> flagged_for_review entries)
   \<and> ((\<exists>s \<in> set entries. \<exists>a. \<bar>a\<bar> > 1/2 \<and>
          (category_sentiment_score s = Finite a \<or> subcategory_sentiment_score s = Finite a))
        \<longrightarrow> flagged_for_review entries)
   \<and> ((\<forall>s \<in> set entries. \<exists>a b. category_sentiment_score s = Finite a
            \<and> subcategory_sentiment_score s = Finite b \<and> \<bar>a\<bar> \<le> 1/2 \<and> \<bar>b\<bar> \<le> 1/2)
        \<longrightarrow> \<not> flagged_for_review entries)
   \<and> (convert_completed_review_to_summary rt db_row = Inr completed \<longrightarrow>
        status completed = COMPLETED)"
proof -
  have 1: "\<exists>sentiments. category_sentiments review = Some sentiments
        \<and> (status review = RECOMMENDED \<longleftrightarrow>
             (\<exists>s \<in> set sentiments.
                (case category_sentiment_score s of
                   Finite a \<Rightarrow> \<bar>a\<bar> > 1/2 | NegZero \<Rightarrow> False | PosInf \<Rightarrow> True
                 | NegInf \<Rightarrow> True | NaN \<Rightarrow> False) \<or>
                (case subcategory_sentiment_score s of
                   Finite b \<Rightarrow> \<bar>b\<bar> > 1/2 | NegZero \<Rightarrow> False | PosInf \<Rightarrow> True
                 | NegInf \<Rightarrow> True | NaN \<Rightarrow> False)))
        \<and> (status review = RANDOM_SAMPLE \<longleftrightarrow>
             \<not> (\<exists>s \<in> set sentiments.
                (case category_sentiment_score s of
                   Finite a \<Rightarrow> \<bar>a\<bar> > 1/2 | NegZero \<Rightarrow> False | PosInf \<Rightarrow> True
                 | NegInf \<Rightarrow> True | NaN \<Rightarrow> False) \<or>
                (case subcategory_sentiment_score s of
                   Finite b \<Rightarrow> \<bar>b\<bar> > 1/2 | NegZero \<Rightarrow> False | PosInf \<Rightarrow> True
                 | NegInf \<Rightarrow> True | NaN \<Rightarrow> False)))"
    if "convert_flattened_rows_to_review rt db_rows = Inr review"
  proof -
    from that have "flattened_rows_review rt db_rows = Inr review"
      by (simp add: convert_flattened_Inr)
    from flattened_rows_review_status [OF this] obtain sentiments where
        c: "category_sentiments review = Some sentiments"
      and s: "status review = (if flagged_for_review sentiments then RECOMMENDED else RANDOM_SAMPLE)"
      by blast
    from s have "status review = RECOMMENDED \<longleftrightarrow> flagged_for_review sentiments"
      and "status review = RANDOM_SAMPLE \<longleftrightarrow> \<not> flagged_for_review sentiments"
      by simp_all
    with c show ?thesis
      unfolding flagged_for_review_iff abs_above_half by blast
  qed
  have 2: "flagged_for_review entries"
    if "\<exists>s \<in> set entries. \<exists>a. \<bar>a\<bar> > 1/2 \<and>
          (category_sentiment_score s = Finite a \<or> subcategory_sentiment_score s = Finite a)"
    using that unfolding flagged_for_review_iff abs_above_half by force
  have 3: "\<not> flagged_for_review entries"
    if "\<forall>s \<in> set entries. \<exists>a b. category_sentiment_score s = Finite a
            \<and> subcategory_sentiment_score s = Finite b \<and> \<bar>a\<bar> \<le> 1/2 \<and> \<bar>b\<bar> \<le> 1/2"
    using that unfolding flagged_for_review_iff abs_above_half by fastforce
  have 4: "status completed = COMPLETED"
    if "convert_completed_review_to_summary rt db_row = Inr completed"
    using that by (simp add: convert_completed_Inr completed_review_summary_status)
  have 5: "flagged_for_review entries"
    if "\<exists>s \<in> set entries. category_sentiment_score s = Finite (51/100)"
    using that by (intro 2) force
  have 6: "flagged_for_review entries"
    if "\<exists>s \<in> set entries. category_sentiment_score s = Finite (- 51/100)"
    using that by (intro 2) force
  have 7: "flagged_for_review entries"
    if "\<exists>s \<in> set entries. subcategory_sentiment_score s = Finite (51/100)"
    using that by (intro 2) force
  have 8: "flagged_for_review entries"
    if "\<exists>s \<in> set entries. subcategory_sentiment_score s = Finite (- 51/100)"
    using that by (intro 2) force
  from 1 2 3 4 5 6 7 8 show ?thesis by blast
qed

text \<open>
  The sample row with category score 0.51 is recommended, and so is the one with scores
  -0.9 and -1; the one with scores -0.5 and 0 is a random sample; the sample row of the
  evaluation table is completed.
\<close>

theorem status_recommended_iff_extreme_score_witness:
  "(\<exists>review. convert_flattened_rows_to_review sample_runtime [sample_food_row] = Inr review
      \<and> status review = RECOMMENDED)
   \<and> (\<exists>review. convert_flattened_rows_to_review sample_runtime [sample_negative_row] = Inr review
      \<and> status review = RECOMMENDED)
   \<and> (\<exists>review. convert_flattened_rows_to_review sample_runtime [sample_service_row] = Inr review
      \<and> status review = RANDOM_SAMPLE)
   \<and> (\<exists>review. convert_completed_review_to_summary sample_runtime sample_evaluation_row = Inr review
      \<and> status review = COMPLETED)"
proof -
  have "case convert_flattened_rows_to_review sample_runtime [sample_food_row] of
          Inl e \<Rightarrow> False
        | Inr review \<Rightarrow> category_sentiments review =
            Some [\<lparr>category = ''Food'', category_sentiment_label = ''Positive'',
                   category_sentiment_score = Finite (51/100),
                   subcategory = ''Flavor'', subcategory_sentiment_label = ''Positive'',
                   subcategory_sentiment_score = Finite (1/2)\<rparr>]"
    by code_simp
  then obtain r1 where c1: "convert_flattened_rows_to_review sample_runtime [sample_food_row] = Inr r1"
    and s1: "category_sentiments r1 =
            Some [\<lparr>category = ''Food'', category_sentiment_label = ''Positive'',
                   category_sentiment_score = Finite (51/100),
                   subcategory = ''Flavor'', subcategory_sentiment_label = ''Positive'',
                   subcategory_sentiment_score = Finite (1/2)\<rparr>]"
    by (auto split: sum.splits)
  from status_recommended_iff_extreme_score [of sample_runtime "[sample_food_row]" r1] c1 s1
  have a: "status r1 = RECOMMENDED" by simp
  have "case convert_flattened_rows_to_review sample_runtime [sample_negative_row] of
          Inl e \<Rightarrow> False
        | Inr review \<Rightarrow> category_sentiments review =
            Some [\<lparr>category = ''Food'', category_sentiment_label = ''Neutral'',
                   category_sentiment_score = Finite (- 9/10),
                   subcategory = ''Quality'', subcategory_sentiment_label = ''Neutral'',
                   subcategory_sentiment_score = Finite (- 1)\<rparr>]"
    by code_simp
  then obtain r4 where c4: "convert_flattened_rows_to_review sample_runtime [sample_negative_row] = Inr r4"
    and s4: "category_sentiments r4 =
            Some [\<lparr>category = ''Food'', category_sentiment_label = ''Neutral'',
                   category_sentiment_score = Finite (- 9/10),
                   subcategory = ''Quality'', subcategory_sentiment_label = ''Neutral'',
                   subcategory_sentiment_score = Finite (- 1)\<rparr>]"
    by (auto split: sum.splits)
  from status_recommended_iff_extreme_score [of sample_runtime "[sample_negative_row]" r4] c4 s4
  have d: "status r4 = RECOMMENDED" by simp
  have "case convert_flattened_rows_to_review sample_runtime [sample_service_row] of
          Inl e \<Rightarrow> False
        | Inr review \<Rightarrow> category_sentiments review =
            Some [\<lparr>category = ''Service'', category_sentiment_label = ''Neutral'',
                   category_sentiment_score = Finite (-1/2),
                   subcategory = ''Service Personnel'', subcategory_sentiment_label = ''Neutral'',
                   subcategory_sentiment_score = Finite 0\<rparr>]"
    by code_simp
  then obtain r2 where c2: "convert_flattened_rows_to_review sample_runtime [sample_service_row] = Inr r2"
    and s2: "category_sentiments r2 =
            Some [\<lparr>category = ''Service'', category_sentiment_label = ''Neutral'',
                   category_sentiment_score = Finite (-1/2),
                   subcategory = ''Service Personnel'', subcategory_sentiment_label = ''Neutral'',
                   subcategory_sentiment_score = Finite 0\<rparr>]"
    by (auto split: sum.splits)
  from status_recommended_iff_extreme_score [of sample_runtime "[sample_service_row]" r2] c2 s2
  have b: "status r2 = RANDOM_SAMPLE" by simp
  have "case convert_completed_review_to_summary sample_runtime sample_evaluation_row of
          Inl e \<Rightarrow> False | Inr review \<Rightarrow> True"
    by code_simp
  then obtain r3 where
    c3: "convert_completed_review_to_summary sample_runtime sample_evaluation_row = Inr r3"
    by (auto split: sum.splits)
  from status_recommended_iff_extreme_score
         [of sample_runtime "[]" r1 "[]" sample_evaluation_row r3] c3
  have c: "status r3 = COMPLETED" by simp
  from a b c d c1 c2 c3 c4 show ?thesis by blast
qed

section \<open>The claims on the upsert builder\<close>

lemma upsert_source_columns_lookup':
  "case upsert_source_columns rt rid h m model of
     Inl e \<Rightarrow> True
   | Inr cols \<Rightarrow>
       map_of cols ''evaluation_hash_key'' = Some (raw_quoted (evaluation_hash_key_of rt rid model))
     \<and> map_of cols ''response_relevancy'' = Some (format_sql_value rt (PStr (response_relevancy_of h)))"
  unfolding upsert_source_columns_def
  by (simp split: sum.splits)

lemma upsert_source_columns_hash_key:
  "upsert_source_columns rt rid h m model = Inr cols \<Longrightarrow>
   map_of cols ''evaluation_hash_key'' = Some (raw_quoted (evaluation_hash_key_of rt rid model))"
  using upsert_source_columns_lookup' [where rt = rt and rid = rid and h = h and m = m and model = model]
  by simp

lemma upsert_source_columns_relevancy:
  "upsert_source_columns rt rid h m model = Inr cols \<Longrightarrow>
   map_of cols ''response_relevancy'' = Some (format_sql_value rt (PStr (response_relevancy_of h)))"
  using upsert_source_columns_lookup' [where rt = rt and rid = rid and h = h and m = m and model = model]
  by simp

text \<open>
  C4. The evaluation hash key is the content hash of the response id and the evaluation
  model version (joined by an underscore) only: the column \<open>evaluation_hash_key\<close> that the
  upsert builder writes is this hash, quoted, whatever the human and machine evaluation
  data are, so two invocations with the same response id and model version give the same
  key.
\<close>

theorem hash_key_of_id_and_model_only:
  "evaluation_hash_key_of rt rid model = sha256_hex rt (rid @ ''_'' @ model)
   \<and> (upsert_source_columns rt rid h m model = Inr cols \<longrightarrow>
        map_of cols ''evaluation_hash_key'' =
          Some (raw_quoted (sha256_hex rt (rid @ ''_'' @ model))))
   \<and> (upsert_source_columns rt rid h m model = Inr cols \<longrightarrow>
      upsert_source_columns rt rid h' m' model = Inr cols' \<longrightarrow>
        map_of cols' ''evaluation_hash_key'' = map_of cols ''evaluation_hash_key'')"
  by (auto simp: upsert_source_columns_hash_key evaluation_hash_key_of_def)

lemma sample_human_eval_columns:
  "\<exists>cols. upsert_source_columns sample_runtime ''r1'' sample_human_eval None ''v3'' = Inr cols"
proof -
  have "case upsert_source_columns sample_runtime ''r1'' sample_human_eval None ''v3'' of
          Inl e \<Rightarrow> False | Inr cols \<Rightarrow> True"
    by code_simp
  then show ?thesis by (auto split: sum.splits)
qed

lemma sample_profane_eval_columns:
  "\<exists>cols. upsert_source_columns sample_runtime ''r1'' sample_profane_eval None ''v3'' = Inr cols"
proof -
  have "case upsert_source_columns sample_runtime ''r1'' sample_profane_eval None ''v3'' of
          Inl e \<Rightarrow> False | Inr cols \<Rightarrow> True"
    by code_simp
  then show ?thesis by (auto split: sum.splits)
qed

text \<open>Two different evaluations of response \<open>r1\<close> under model \<open>v3\<close> have one key.\<close>

theorem hash_key_of_id_and_model_only_witness:
  "\<exists>cols cols'.
      upsert_source_columns sample_runtime ''r1'' sample_human_eval None ''v3'' = Inr cols
    \<and> upsert_source_columns sample_runtime ''r1'' sample_profane_eval None ''v3'' = Inr cols'
    \<and> map_of cols' ''evaluation_hash_key'' = map_of cols ''evaluation_hash_key''
    \<and> map_of cols ''evaluation_hash_key'' = Some (raw_quoted ''sha256:r1_v3'')"
proof -
  from sample_human_eval_columns obtain cols where
    c: "upsert_source_columns sample_runtime ''r1'' sample_human_eval None ''v3'' = Inr cols" ..
  from sample_profane_eval_columns obtain cols' where
    c': "upsert_source_columns sample_runtime ''r1'' sample_profane_eval None ''v3'' = Inr cols'" ..
  have h: "sha256_hex sample_runtime (''r1'' @ ''_'' @ ''v3'') = ''sha256:r1_v3''"
    by (simp add: sample_runtime_def)
  from hash_key_of_id_and_model_only
         [of sample_runtime "''r1''" "''v3''" sample_human_eval None cols
             sample_profane_eval None cols'] c c' h
  show ?thesis by simp
qed

lemma response_relevancy_quoted:
  "format_sql_value rt (PStr (response_relevancy_of h)) = raw_quoted (response_relevancy_of h)"
  by (simp add: response_relevancy_of_def raw_quoted_def quote_def)

text \<open>
  C5. For every human evaluation data given to the upsert builder, the written
  \<open>response_relevancy\<close> is \<open>nonsense or irrelevant\<close> when the flag \<open>irrelevant\<close> is true;
  otherwise \<open>profane but useful\<close> when the flag \<open>profane\<close> is true; otherwise \<open>useful\<close>,
  also when both flags are absent. The column holds the string in single quotes.
\<close>

theorem written_relevancy_from_flags:
  "(upsert_source_columns rt rid h m model = Inr cols \<longrightarrow>
      map_of cols ''response_relevancy'' = Some (raw_quoted (response_relevancy_of h)))
   \<and> (truthy (dict_get h ''irrelevant'' (PBool False)) \<longrightarrow>
        response_relevancy_of h = ''nonsense or irrelevant'')
   \<and> (\<not> truthy (dict_get h ''irrelevant'' (PBool False)) \<longrightarrow>
      truthy (dict_get h ''profane'' (PBool False)) \<longrightarrow>
        response_relevancy_of h = ''profane but useful'')
   \<and> (\<not> truthy (dict_get h ''irrelevant'' (PBool False)) \<longrightarrow>
      \<not> truthy (dict_get h ''profane'' (PBool False)) \<longrightarrow>
        response_relevancy_of h = ''useful'')
   \<and> (map_of h ''irrelevant'' = None \<longrightarrow> map_of h ''profane'' = None \<longrightarrow>
        response_relevancy_of h = ''useful'')"
proof -
  have "map_of cols ''response_relevancy'' = Some (raw_quoted (response_relevancy_of h))"
    if "upsert_source_columns rt rid h m model = Inr cols"
    using upsert_source_columns_relevancy [OF that] by (simp only: response_relevancy_quoted)
  moreover have "response_relevancy_of h = ''useful''"
    if "map_of h ''irrelevant'' = None" "map_of h ''profane'' = None"
    using that by (simp add: response_relevancy_of_def dict_get_def)
  ultimately show ?thesis
    by (simp add: response_relevancy_of_def)
qed


text \<open>The three cases on sample data.\<close>

theorem written_relevancy_from_flags_witness:
  "\<exists>cols cols'.
      upsert_source_columns sample_runtime ''r1'' sample_human_eval None ''v3'' = Inr cols
    \<and> map_of cols ''response_relevancy'' = Some (raw_quoted ''nonsense or irrelevant'')
    \<and> upsert_source_columns sample_runtime ''r1'' sample_profane_eval None ''v3'' = Inr cols'
    \<and> map_of cols' ''response_relevancy'' = Some (raw_quoted ''profane but useful'')
    \<and> response_relevancy_of [] = ''useful''"
proof -
  from sample_human_eval_columns obtain cols where
    c: "upsert_source_columns sample_runtime ''r1'' sample_human_eval None ''v3'' = Inr cols" ..
  from sample_profane_eval_columns obtain cols' where
    c': "upsert_source_columns sample_runtime ''r1'' sample_profane_eval None ''v3'' = Inr cols'" ..
  have t: "truthy (dict_get sample_human_eval ''irrelevant'' (PBool False))"
    by code_simp
  have f: "\<not> truthy (dict_get sample_profane_eval ''irrelevant'' (PBool False))"
    and p: "truthy (dict_get sample_profane_eval ''profane'' (PBool False))"
    by code_simp+
  from written_relevancy_from_flags [of sample_runtime "''r1''" sample_human_eval None "''v3''" cols] c t
  have 1: "map_of cols ''response_relevancy'' = Some (raw_quoted ''nonsense or irrelevant'')"
    by simp
  from written_relevancy_from_flags [of sample_runtime "''r1''" sample_profane_eval None "''v3''" cols'] c' f p
  have 2: "map_of cols' ''response_relevancy'' = Some (raw_quoted ''profane but useful'')"
    by simp
  from written_relevancy_from_flags [of sample_runtime "''r1''" "[]" None "''v3''" cols]
  have 3: "response_relevancy_of [] = ''useful''"
    by simp
  from c c' 1 2 3 show ?thesis by blast
qed

section \<open>The claims on the validation of a review\<close>

lemma map_of_dict_set: "map_of (dict_set d k v) = (map_of d)(k \<mapsto> v)"
  by (induction d) (auto simp: fun_eq_iff)

lemma dict_get_dict_set:
  "dict_get (dict_set d k v) k' dflt = (if k' = k then v else dict_get d k' dflt)"
  by (simp add: dict_get_def map_of_dict_set)

lemma accept_human_eval_data_fields:
  "dict_get (accept_human_eval_data original (initial_human_eval_data original)) ''irrelevant'' dflt
     = sentiment_irrelevant (sentiment_analysis original)"
  "dict_get (accept_human_eval_data original (initial_human_eval_data original)) ''profane'' dflt
     = PBool (profane original)"
  "dict_get (accept_human_eval_data original (initial_human_eval_data original)) ''rewritten_comment'' dflt
     = opt_str (rewritten_comment original)"
  "dict_get (accept_human_eval_data original (initial_human_eval_data original)) ''overall_sentiment_label'' dflt
     = opt_str (overall_sentiment_label original)"
  "dict_get (accept_human_eval_data original (initial_human_eval_data original)) ''overall_sentiment_score'' dflt
     = opt_int (overall_sentiment_score original)"
  "dict_get (accept_human_eval_data original (initial_human_eval_data original)) ''category_sentiments'' dflt
     = sentiments_or_empty (category_sentiments original)"
  by (simp_all add: accept_human_eval_data_def dict_get_dict_set)

lemma initial_machine_eval_data_fields:
  "dict_get (initial_machine_eval_data original) ''irrelevant'' dflt = PBool False"
  "dict_get (initial_machine_eval_data original) ''profane'' dflt = PBool (profane original)"
  "dict_get (initial_machine_eval_data original) ''rewritten_comment'' dflt
     = opt_str (rewritten_comment original)"
  "dict_get (initial_machine_eval_data original) ''overall_sentiment_label'' dflt
     = opt_str (overall_sentiment_label original)"
  "dict_get (initial_machine_eval_data original) ''overall_sentiment_score'' dflt
     = opt_int (overall_sentiment_score original)"
  "dict_get (initial_machine_eval_data original) ''category_sentiments'' dflt
     = sentiments_or_empty (category_sentiments original)"
  by (simp_all add: initial_machine_eval_data_def dict_get_def)

lemma score_literal_opt_int:
  assumes "\<And>dflt. dict_get d ''overall_sentiment_score'' dflt = opt_int x"
  shows "score_literal rt d = Inr (format_sql_value rt (opt_int x))"
  by (cases x) (simp_all add: score_literal_def assms opt_int_def)


lemma upsert_source_columns_fields':
  "case upsert_source_columns rt rid h me model of
     Inl e \<Rightarrow> True
   | Inr cols \<Rightarrow>
       map_of cols ''human_eval_profane'' =
         Some (format_sql_value rt (dict_get h ''profane'' (PBool False)))
     \<and> map_of cols ''human_eval_rewritten_comment'' =
         Some (format_sql_value rt (dict_get h ''rewritten_comment'' PNone))
     \<and> map_of cols ''human_eval_irrelevant'' =
         Some (format_sql_value rt (dict_get h ''irrelevant'' (PBool False)))
     \<and> map_of cols ''human_eval_overall_sentiment_label'' =
         Some (format_sql_value rt (dict_get h ''overall_sentiment_label'' PNone))
     \<and> Inr (map_of cols ''human_eval_overall_sentiment_score'') = map_sum id Some (score_literal rt h)
     \<and> Inr (map_of cols ''human_eval_category_sentiments'') =
         map_sum id (\<lambda>t. Some (format_sql_value rt (PStr t)))
           (serialize_category_sentiments rt (dict_get h ''category_sentiments'' (PList [])))
     \<and> map_of cols ''machine_eval_profane'' =
         Some (format_sql_value rt
                (case machine_data me of
                   None \<Rightarrow> PBool False | Some m \<Rightarrow> dict_get m ''profane'' (PBool False)))
     \<and> map_of cols ''machine_eval_rewritten_comment'' =
         Some (format_sql_value rt
                (case machine_data me of
                   None \<Rightarrow> PNone | Some m \<Rightarrow> dict_get m ''rewritten_comment'' PNone))
     \<and> map_of cols ''machine_eval_irrelevant'' =
         Some (format_sql_value rt
                (case machine_data me of
                   None \<Rightarrow> PBool False | Some m \<Rightarrow> dict_get m ''irrelevant'' (PBool False)))
     \<and> map_of cols ''machine_eval_overall_sentiment_label'' =
         Some (format_sql_value rt
                (case machine_data me of
                   None \<Rightarrow> PNone | Some m \<Rightarrow> dict_get m ''overall_sentiment_label'' PNone))
     \<and> Inr (map_of cols ''machine_eval_overall_sentiment_score'') =
         map_sum id Some
           (case machine_data me of
              None \<Rightarrow> Inr (format_sql_value rt PNone) | Some m \<Rightarrow> score_literal rt m)
     \<and> Inr (map_of cols ''machine_eval_category_sentiments'') =
         map_sum id (\<lambda>t. Some (format_sql_value rt (PStr t)))
           (case machine_data me of
              None \<Rightarrow> Inr ''[]''
            | Some m \<Rightarrow> serialize_category_sentiments rt (dict_get m ''category_sentiments'' (PList [])))"
  unfolding upsert_source_columns_def
  by (simp split: sum.splits)

lemma upsert_source_columns_fields:
  assumes "upsert_source_columns rt rid h me model = Inr cols"
  shows "map_of cols ''human_eval_profane'' =
         Some (format_sql_value rt (dict_get h ''profane'' (PBool False)))"
    and "map_of cols ''human_eval_rewritten_comment'' =
         Some (format_sql_value rt (dict_get h ''rewritten_comment'' PNone))"
    and "map_of cols ''human_eval_irrelevant'' =
         Some (format_sql_value rt (dict_get h ''irrelevant'' (PBool False)))"
    and "map_of cols ''human_eval_overall_sentiment_label'' =
         Some (format_sql_value rt (dict_get h ''overall_sentiment_label'' PNone))"
    and "Inr (map_of cols ''human_eval_overall_sentiment_score'') = map_sum id Some (score_literal rt h)"
    and "Inr (map_of cols ''human_eval_category_sentiments'') =
         map_sum id (\<lambda>t. Some (format_sql_value rt (PStr t)))
           (serialize_category_sentiments rt (dict_get h ''category_sentiments'' (PList [])))"
    and "map_of cols ''machine_eval_profane'' =
         Some (format_sql_value rt
                (case machine_data me of
                   None \<Rightarrow> PBool False | Some m \<Rightarrow> dict_get m ''profane'' (PBool False)))"
    and "map_of cols ''machine_eval_rewritten_comment'' =
         Some (format_sql_value rt
                (case machine_data me of
                   None \<Rightarrow> PNone | Some m \<Rightarrow> dict_get m ''rewritten_comment'' PNone))"
    and "map_of cols ''machine_eval_irrelevant'' =
         Some (format_sql_value rt
                (case machine_data me of
                   None \<Rightarrow> PBool False | Some m \<Rightarrow> dict_get m ''irrelevant'' (PBool False)))"
    and "map_of cols ''machine_eval_overall_sentiment_label'' =
         Some (format_sql_value rt
                (case machine_data me of
                   None \<Rightarrow> PNone | Some m \<Rightarrow> dict_get m ''overall_sentiment_label'' PNone))"
    and "Inr (map_of cols ''machine_eval_overall_sentiment_score'') =
         map_sum id Some
           (case machine_data me of
              None \<Rightarrow> Inr (format_sql_value rt PNone) | Some m \<Rightarrow> score_literal rt m)"
    and "Inr (map_of cols ''machine_eval_category_sentiments'') =
         map_sum id (\<lambda>t. Some (format_sql_value rt (PStr t)))
           (case machine_data me of
              None \<Rightarrow> Inr ''[]''
            | Some m \<Rightarrow> serialize_category_sentiments rt (dict_get m ''category_sentiments'' (PList [])))"
  using upsert_source_columns_fields'
          [where rt = rt and rid = rid and h = h and me = me and model = model] assms
  by simp_all

lemma machine_data_initial:
  "machine_data (Some (initial_machine_eval_data original)) = Some (initial_machine_eval_data original)"
  by (simp add: machine_data_def initial_machine_eval_data_def)


lemma validate_review_accept_world:
  assumes "get_review_detail rt w rid True = (Inr original, w1)"
    and "human_eval_data_for original validation = Inr (Some h)"
  shows "snd (validate_review rt w rid validation True) =
         snd (write_human_evaluation rt w1 rid h (Some (initial_machine_eval_data original)))"
  unfolding validate_review_def
  by (simp add: assms split: prod.splits sum.splits)

text \<open>
  C6, as amended. For every review, when validate is called with decision \<open>accept\<close>,
  every field given to the human-eval side of the upsert (irrelevant, profane, rewritten
  comment, overall sentiment label and score, category sentiments, an absent list as the
  empty list) equals the corresponding field of the currently displayed summary, and so
  does the column written for it; the machine-eval side receives a snapshot with the same
  profane, rewritten comment, overall sentiment label and score and category sentiments,
  and with irrelevant always false.
\<close>

theorem accept_copies_displayed_summary:
  assumes "decision validation = ACCEPT"
  shows "\<exists>h m.
      human_eval_data_for original validation = Inr (Some h)
    \<and> m = initial_machine_eval_data original
    \<and> (\<forall>w w1. get_review_detail rt w rid True = (Inr original, w1) \<longrightarrow>
          snd (validate_review rt w rid validation True) =
          snd (write_human_evaluation rt w1 rid h (Some m)))
    \<and> dict_get h ''irrelevant'' PNone = sentiment_irrelevant (sentiment_analysis original)
    \<and> dict_get h ''profane'' PNone = PBool (profane original)
    \<and> dict_get h ''rewritten_comment'' PNone = opt_str (rewritten_comment original)
    \<and> dict_get h ''overall_sentiment_label'' PNone = opt_str (overall_sentiment_label original)
    \<and> dict_get h ''overall_sentiment_score'' PNone = opt_int (overall_sentiment_score original)
    \<and> dict_get h ''category_sentiments'' PNone = sentiments_or_empty (category_sentiments original)
    \<and> dict_get m ''irrelevant'' PNone = PBool False
    \<and> dict_get m ''profane'' PNone = dict_get h ''profane'' PNone
    \<and> dict_get m ''rewritten_comment'' PNone = dict_get h ''rewritten_comment'' PNone
    \<and> dict_get m ''overall_sentiment_label'' PNone = dict_get h ''overall_sentiment_label'' PNone
    \<and> dict_get m ''overall_sentiment_score'' PNone = dict_get h ''overall_sentiment_score'' PNone
    \<and> dict_get m ''category_sentiments'' PNone = dict_get h ''category_sentiments'' PNone
    \<and> (\<forall>model cols. upsert_source_columns rt rid h (Some m) model = Inr cols \<longrightarrow>
          map_of cols ''human_eval_irrelevant'' =
            Some (format_sql_value rt (sentiment_irrelevant (sentiment_analysis original)))
        \<and> map_of cols ''machine_eval_irrelevant'' = Some ''FALSE''
        \<and> map_of cols ''human_eval_profane'' = Some (format_sql_value rt (PBool (profane original)))
        \<and> map_of cols ''machine_eval_profane'' = map_of cols ''human_eval_profane''
        \<and> map_of cols ''human_eval_rewritten_comment'' =
            Some (format_sql_value rt (opt_str (rewritten_comment original)))
        \<and> map_of cols ''machine_eval_rewritten_comment'' = map_of cols ''human_eval_rewritten_comment''
        \<and> map_of cols ''human_eval_overall_sentiment_label'' =
            Some (format_sql_value rt (opt_str (overall_sentiment_label original)))
        \<and> map_of cols ''machine_eval_overall_sentiment_label'' =
            map_of cols ''human_eval_overall_sentiment_label''
        \<and> map_of cols ''human_eval_overall_sentiment_score'' =
            Some (format_sql_value rt (opt_int (overall_sentiment_score original)))
        \<and> map_of cols ''machine_eval_overall_sentiment_score'' =
            map_of cols ''human_eval_overall_sentiment_score''
        \<and> map_of cols ''machine_eval_category_sentiments'' =
            map_of cols ''human_eval_category_sentiments'')"
proof -
  define h where "h = accept_human_eval_data original (initial_human_eval_data original)"
  define m where "m = initial_machine_eval_data original"
  have hd: "human_eval_data_for original validation = Inr (Some h)"
    by (simp add: human_eval_data_for_def assms h_def)
  have w: "\<forall>w w1. get_review_detail rt w rid True = (Inr original, w1) \<longrightarrow>
          snd (validate_review rt w rid validation True) =
          snd (write_human_evaluation rt w1 rid h (Some m))"
    using validate_review_accept_world [OF _ hd] by (simp add: m_def)
  note hf = accept_human_eval_data_fields [of original, folded h_def]
  note mf = initial_machine_eval_data_fields [of original, folded m_def]
  have md: "machine_data (Some m) = Some m"
    by (simp add: m_def machine_data_initial)
  have sh: "score_literal rt h = Inr (format_sql_value rt (opt_int (overall_sentiment_score original)))"
    by (rule score_literal_opt_int) (simp add: hf)
  have sm: "score_literal rt m = Inr (format_sql_value rt (opt_int (overall_sentiment_score original)))"
    by (rule score_literal_opt_int) (simp add: mf)
  have cols: "map_of cols ''human_eval_irrelevant'' =
            Some (format_sql_value rt (sentiment_irrelevant (sentiment_analysis original)))
        \<and> map_of cols ''machine_eval_irrelevant'' = Some ''FALSE''
        \<and> map_of cols ''human_eval_profane'' = Some (format_sql_value rt (PBool (profane original)))
        \<and> map_of cols ''machine_eval_profane'' = map_of cols ''human_eval_profane''
        \<and> map_of cols ''human_eval_rewritten_comment'' =
            Some (format_sql_value rt (opt_str (rewritten_comment original)))
        \<and> map_of cols ''machine_eval_rewritten_comment'' = map_of cols ''human_eval_rewritten_comment''
        \<and> map_of cols ''human_eval_overall_sentiment_label'' =
            Some (format_sql_value rt (opt_str (overall_sentiment_label original)))
        \<and> map_of cols ''machine_eval_overall_sentiment_label'' =
            map_of cols ''human_eval_overall_sentiment_label''
        \<and> map_of cols ''human_eval_overall_sentiment_score'' =
            Some (format_sql_value rt (opt_int (overall_sentiment_score original)))
        \<and> map_of cols ''machine_eval_overall_sentiment_score'' =
            map_of cols ''human_eval_overall_sentiment_score''
        \<and> map_of cols ''machine_eval_category_sentiments'' =
            map_of cols ''human_eval_category_sentiments''"
    if u: "upsert_source_columns rt rid h (Some m) model = Inr cols" for model cols
  proof -
    note f = upsert_source_columns_fields [OF u, unfolded md option.case hf mf sh sm]
    have "Inr (map_of cols ''machine_eval_category_sentiments'') =
          (Inr (map_of cols ''human_eval_category_sentiments'') :: exn + string option)"
      using f(6) f(12) by simp
    then have j: "map_of cols ''machine_eval_category_sentiments'' =
          map_of cols ''human_eval_category_sentiments''"
      by simp
    from f(5) have s1: "map_of cols ''human_eval_overall_sentiment_score'' =
            Some (format_sql_value rt (opt_int (overall_sentiment_score original)))"
      by simp
    from f(11) have s2: "map_of cols ''machine_eval_overall_sentiment_score'' =
            Some (format_sql_value rt (opt_int (overall_sentiment_score original)))"
      by simp
    from f(1-4) f(7-10) j s1 s2 show ?thesis by simp
  qed
  from hd w cols show ?thesis
    by (intro exI [of _ h] exI [of _ m] conjI) (simp_all add: hf mf m_def [symmetric])
qed


text \<open>Accepting the sample detail, an irrelevant comment with overall score 3.\<close>

theorem accept_copies_displayed_summary_witness:
  "\<exists>h. human_eval_data_for sample_detail accept_request = Inr (Some h)
     \<and> dict_get h ''irrelevant'' PNone = PBool True
     \<and> dict_get h ''overall_sentiment_score'' PNone = PInt 3
     \<and> dict_get h ''category_sentiments'' PNone = PList []
     \<and> dict_get (initial_machine_eval_data sample_detail) ''overall_sentiment_score'' PNone = PInt 3
     \<and> dict_get (initial_machine_eval_data sample_detail) ''irrelevant'' PNone = PBool False"
proof -
  have d: "decision accept_request = ACCEPT"
    by (simp add: accept_request_def)
  have i: "sentiment_irrelevant (sentiment_analysis sample_detail) = PBool True"
    by (simp add: sample_detail_def sentiment_irrelevant_def dict_get_def)
  have s: "opt_int (overall_sentiment_score sample_detail) = PInt 3"
    by (simp add: sample_detail_def opt_int_def)
  have c: "sentiments_or_empty (category_sentiments sample_detail) = PList []"
    by (simp add: sample_detail_def sentiments_or_empty_def)
  from accept_copies_displayed_summary [OF d, of sample_detail sample_runtime "''r5''"]
  obtain h where
      "human_eval_data_for sample_detail accept_request = Inr (Some h)"
      "dict_get h ''irrelevant'' PNone = sentiment_irrelevant (sentiment_analysis sample_detail)"
      "dict_get h ''overall_sentiment_score'' PNone = opt_int (overall_sentiment_score sample_detail)"
      "dict_get h ''category_sentiments'' PNone = sentiments_or_empty (category_sentiments sample_detail)"
      "dict_get (initial_machine_eval_data sample_detail) ''overall_sentiment_score'' PNone =
         dict_get h ''overall_sentiment_score'' PNone"
      "dict_get (initial_machine_eval_data sample_detail) ''irrelevant'' PNone = PBool False"
    by blast
  with i s c show ?thesis by auto
qed

text \<open>
  The machine-eval side is not a snapshot of the same values: accepting the response
  \<open>r4\<close>, shown as irrelevant, writes \<open>TRUE\<close> to \<open>human_eval_irrelevant\<close> and
  \<open>FALSE\<close> to \<open>machine_eval_irrelevant\<close>.
\<close>

theorem accept_snapshot_counterexample:
  "displayed_irrelevant sample_runtime sample_world ''r4'' = Some (PBool True)
   \<and> written (snd (validate_review sample_runtime sample_world ''r4'' accept_request True))
       ''human_eval_irrelevant'' = Some ''TRUE''
   \<and> written (snd (validate_review sample_runtime sample_world ''r4'' accept_request True))
       ''machine_eval_irrelevant'' = Some ''FALSE''"
  by code_simp

lemma filter_is_write_issue:
  "filter is_write (issued (issue st w)) =
     filter is_write (issued w) @ (if is_write st then [st] else [])"
  by (simp add: issue_def)

lemma get_review_detail_no_write:
  "filter is_write (issued (snd (get_review_detail rt w rid use_databricks))) =
   filter is_write (issued w)"
  unfolding get_review_detail_def
  by (simp add: filter_is_write_issue split: option.splits sum.splits)

lemma validate_review_skip:
  assumes "decision validation = SKIP"
  shows "validate_review rt w rid validation True =
     (case fst (get_review_detail rt w rid True) of
        Inl e \<Rightarrow> Inl e
      | Inr original \<Rightarrow>
          Inr \<lparr>success = True, resp_review_id = rid, resp_decision = SKIP,
                resp_corrections_made = None, resp_message = SkippedNoEvaluationWritten\<rparr>,
      snd (get_review_detail rt w rid True))"
  unfolding validate_review_def
  by (simp add: human_eval_data_for_def assms split: prod.splits sum.splits)

text \<open>
  C7, as amended. For every review id, a validate request with decision \<open>skip\<close> never
  invokes the evaluation upsert builder: it issues no statement that writes (no table is
  made sure of, no \<open>MERGE\<close>), so no evaluation row is written and the evaluation table is
  unchanged. It returns a success response when the review can be fetched, and otherwise
  the error of the fetch (404 when the review is not found, 500 when its rows do not
  convert).
\<close>

theorem skip_writes_nothing:
  assumes "decision validation = SKIP"
  shows "filter is_write (issued (snd (validate_review rt w rid validation use_databricks))) =
           filter is_write (issued w)
       \<and> snd (validate_review rt w rid validation True) = snd (get_review_detail rt w rid True)
       \<and> fst (validate_review rt w rid validation True) =
           (case fst (get_review_detail rt w rid True) of
              Inl e \<Rightarrow> Inl e
            | Inr original \<Rightarrow>
                Inr \<lparr>success = True, resp_review_id = rid, resp_decision = SKIP,
                      resp_corrections_made = None,
                      resp_message = SkippedNoEvaluationWritten\<rparr>)
       \<and> fst (validate_review rt w rid validation False) =
           (case get_mock_review_by_id (mock_reviews w) rid of
              None \<Rightarrow> Inl (HTTPException 404 ReviewNotFound)
            | Some review \<Rightarrow>
                Inr \<lparr>success = True, resp_review_id = rid, resp_decision = SKIP,
                      resp_corrections_made = None, resp_message = HasBeenValidated\<rparr>)"
proof -
  have 1: "filter is_write (issued (snd (validate_review rt w rid validation use_databricks))) =
           filter is_write (issued w)"
  proof (cases use_databricks)
    case True
    then show ?thesis
      by (simp add: validate_review_skip [OF assms] get_review_detail_no_write)
  next
    case False
    then show ?thesis
      by (simp add: validate_review_def split: option.splits)
  qed
  have 2: "fst (validate_review rt w rid validation False) =
           (case get_mock_review_by_id (mock_reviews w) rid of
              None \<Rightarrow> Inl (HTTPException 404 ReviewNotFound)
            | Some review \<Rightarrow>
                Inr \<lparr>success = True, resp_review_id = rid, resp_decision = SKIP,
                      resp_corrections_made = None, resp_message = HasBeenValidated\<rparr>)"
    by (simp add: validate_review_def assms split: option.splits)
  from 1 2 show ?thesis
    by (simp add: validate_review_skip [OF assms])
qed

text \<open>Skipping the response \<open>r4\<close> of the sample world succeeds and writes nothing.\<close>

theorem skip_writes_nothing_witness:
  "fst (validate_review sample_runtime sample_world ''r4'' skip_request True) =
     Inr \<lparr>success = True, resp_review_id = ''r4'', resp_decision = SKIP,
           resp_corrections_made = None, resp_message = SkippedNoEvaluationWritten\<rparr>
   \<and> filter is_write (issued (snd (validate_review sample_runtime sample_world ''r4'' skip_request True)))
       = []"
proof -
  have d: "decision skip_request = SKIP"
    by (simp add: skip_request_def)
  have g: "case fst (get_review_detail sample_runtime sample_world ''r4'' True) of
             Inl e \<Rightarrow> False | Inr original \<Rightarrow> True"
    by code_simp
  have i: "issued sample_world = []"
    by (simp add: sample_world_def)
  from skip_writes_nothing [OF d, of sample_runtime sample_world "''r4''" True] g i
  show ?thesis
    by (auto split: sum.splits)
qed

text \<open>
  Skipping a response that the warehouse does not know (nor the mock data) does not
  succeed: the review is fetched before the decision is looked at, and the fetch raises
  404.
\<close>

theorem skip_unknown_review_counterexample:
  "fst (validate_review sample_runtime sample_world ''r9'' skip_request True) =
     Inl (HTTPException 404 ReviewNotFound)
   \<and> fst (validate_review sample_runtime sample_world ''r9'' skip_request False) =
     Inl (HTTPException 404 ReviewNotFound)"
  by code_simp

lemma validate_review_same_data:
  assumes "\<And>original. human_eval_data_for original v = human_eval_data_for original v'"
  shows "snd (validate_review rt w rid v True) = snd (validate_review rt w rid v' True)"
    and "map_sum id resp_message (fst (validate_review rt w rid v True)) =
         map_sum id resp_message (fst (validate_review rt w rid v' True))"
  unfolding validate_review_def
  by (simp_all add: assms split: prod.splits sum.splits option.splits)

text \<open>
  C10. For every review, a validate request with decision \<open>override\<close> and no
  \<open>updated_labels\<close> (None, or an empty dict) constructs exactly the human-eval data of a
  request with decision \<open>accept\<close>; the machine-eval snapshot is the same in both, and so
  are the statements issued, the \<open>MERGE\<close> with its columns among them, and the outcome.
\<close>

theorem override_without_labels_is_accept:
  assumes "decision v = OVERRIDE"
    and "updated_labels v = None \<or> updated_labels v = Some []"
    and "decision v' = ACCEPT"
  shows "human_eval_data_for original v = human_eval_data_for original v'
       \<and> human_eval_data_for original v =
           Inr (Some (accept_human_eval_data original (initial_human_eval_data original)))
       \<and> snd (validate_review rt w rid v True) = snd (validate_review rt w rid v' True)
       \<and> map_sum id resp_message (fst (validate_review rt w rid v True)) =
           map_sum id resp_message (fst (validate_review rt w rid v' True))"
proof -
  have e: "human_eval_data_for original v = human_eval_data_for original v'" for original
    using assms by (auto simp: human_eval_data_for_def)
  have a: "human_eval_data_for original v =
           Inr (Some (accept_human_eval_data original (initial_human_eval_data original)))"
    using assms by (auto simp: human_eval_data_for_def)
  from e a validate_review_same_data [of v v' rt w rid, OF e] show ?thesis
    by simp
qed

text \<open>The sample override request without labels and the sample accept request.\<close>

theorem override_without_labels_is_accept_witness:
  "snd (validate_review sample_runtime sample_world ''r4'' override_request True) =
   snd (validate_review sample_runtime sample_world ''r4'' accept_request True)
   \<and> human_eval_data_for sample_detail override_request =
     human_eval_data_for sample_detail accept_request"
proof -
  have 1: "decision override_request = OVERRIDE"
    and 2: "updated_labels override_request = None \<or> updated_labels override_request = Some []"
    and 3: "decision accept_request = ACCEPT"
    by (simp_all add: override_request_def accept_request_def)
  from override_without_labels_is_accept [OF 1 2 3, of sample_detail sample_runtime sample_world "''r4''"]
  show ?thesis by simp
qed

end
